theory Spec2Isabelle
  imports Main "HOL-Library.Word"
begin

section \<open>Strings, values and the safe alphabet\<close>

text \<open>
  A JavaScript string is a sequence of UTF-16 code units; \<open>length\<close> counts code units and
  \<open>charCodeAt\<close> reads one of them, or gives NaN (here \<open>None\<close>) past the end.
\<close>

type_synonym jsstring = "nat list"

definition str :: "string \<Rightarrow> jsstring" where
  "str s = map of_char s"

definition charCodeAt :: "jsstring \<Rightarrow> nat \<Rightarrow> nat option" where
  "charCodeAt s i = (if i < length s then Some (s ! i) else None)"

definition startsWith :: "jsstring \<Rightarrow> jsstring \<Rightarrow> bool" where
  "startsWith s p = (take (length p) s = p)"

definition slice :: "jsstring \<Rightarrow> nat \<Rightarrow> nat \<Rightarrow> jsstring" where
  "slice s beg fin = drop beg (take fin s)"

text \<open>Decimal text of a non-negative integer, as a template literal or a property key has it.\<close>

fun decimal :: "nat \<Rightarrow> jsstring" where
  "decimal n = (if n < 10 then [48 + n] else decimal (n div 10) @ [48 + n mod 10])"

declare decimal.simps [simp del]

text \<open>
  Values. Numbers that are integers are \<open>VInt\<close>; the model computes on them with exact
  integer arithmetic, which is what the source's double arithmetic does as long as every
  value stays within \<open>Number.MAX_SAFE_INTEGER\<close>. A number that is not an integer (a
  fraction, NaN, an infinity) is \<open>VFloat\<close> of its text \<open>`${data}`\<close>. Objects live in a heap
  and are referred to by address, so that two references to one object are equal values.
  \<open>VOther\<close> stands for the values whose \<open>typeof\<close> is none of string, number, boolean,
  object, undefined (functions, symbols, big integers).
\<close>

type_synonym addr = nat

datatype jsval =
    VUndefined
  | VNull
  | VBool bool
  | VInt int
  | VFloat jsstring
  | VStr jsstring
  | VRef addr
  | VOther

definition NaN :: jsval where
  "NaN = VFloat (str ''NaN'')"

datatype jstype = TString | TNumber | TBoolean | TObject | TUndefined | TOther

fun typeof :: "jsval \<Rightarrow> jstype" where
  "typeof VUndefined = TUndefined"
| "typeof VNull = TObject"
| "typeof (VBool _) = TBoolean"
| "typeof (VInt _) = TNumber"
| "typeof (VFloat _) = TNumber"
| "typeof (VStr _) = TString"
| "typeof (VRef _) = TObject"
| "typeof VOther = TOther"

text \<open>
  What the model takes from the host rather than from the source, as parameters:
  the order of a non-integer number against an integer (\<open>val >= 1\<close> on a fraction, NaN or
  an infinity); the floating-point estimate \<open>Math.log2(v) / BITS_PER_SAFECHARS | 0\<close> of the
  number of base-88 digits of a positive integer, less one; \<open>parseFloat\<close> of a text; the
  UTF-8 text encoder and decoder; and the \<open>RegExp\<close> constructor on two strings, which
  gives the source and flags of the new pattern or throws a syntax error (\<open>None\<close>).
\<close>

type_synonym byte = "8 word"

record host =
  float_ge :: "jsstring \<Rightarrow> int \<Rightarrow> bool"
  log88_floor :: "int \<Rightarrow> int"
  parseFloat :: "jsstring \<Rightarrow> jsval"
  TextEncoder_encode :: "jsstring \<Rightarrow> byte list"
  TextDecoder_decode :: "byte list \<Rightarrow> jsstring"
  RegExp_new :: "jsstring \<Rightarrow> jsstring \<Rightarrow> (jsstring \<times> jsstring) option"

definition VERSION :: nat where
  "VERSION = 1"

definition SEPARATORCHAR :: jsstring where
  "SEPARATORCHAR = str '' ''"

definition SEPARATORCHARCODE :: nat where
  "SEPARATORCHARCODE = SEPARATORCHAR ! 0"

definition MAGICPREFIX :: jsstring where
  "MAGICPREFIX = str ''UOSC_'' @ decimal VERSION @ SEPARATORCHAR"

definition MAGICLZ4PREFIX :: jsstring where
  "MAGICLZ4PREFIX = str ''UOSC/lz4_'' @ decimal VERSION @ SEPARATORCHAR"

definition MAX_SAFE_INTEGER :: int where
  "MAX_SAFE_INTEGER = 2 ^ 53 - 1"

definition FAILMARK :: int where
  "FAILMARK = MAX_SAFE_INTEGER"

definition SAFECHARS :: jsstring where
  "SAFECHARS = str ''&'()*+,-./0123456789:;<=>?@ABCDEFGHIJKLMNOPQRSTUVWXYZ[]^_`abcdefghijklmnopqrstuvwxyz{|}~''"

definition NUMSAFECHARS :: nat where
  "NUMSAFECHARS = length SAFECHARS"

text \<open>
  The three lookup tables. \<open>intToChar[i]\<close> is a one-character string below
  \<open>NUMSAFECHARS\<close>, the empty string up to 127 and \<open>undefined\<close> beyond, which string
  concatenation turns into the text "undefined". \<open>charCodeToInt\<close> is filled with zeros at
  the indices 0 to 127 and then overwritten at the code of each safe character; a lookup
  at any other index, or at NaN, is \<open>undefined\<close>.
\<close>

definition intToChar :: "nat \<Rightarrow> jsstring" where
  "intToChar i = (if i < NUMSAFECHARS then [SAFECHARS ! i]
                  else if i < 128 then [] else str ''undefined'')"

definition intToCharCode :: "nat \<Rightarrow> nat" where
  "intToCharCode i = (if i < NUMSAFECHARS then SAFECHARS ! i else 0)"

definition charCodeToInt_table :: "nat list" where
  "charCodeToInt_table =
     fold (\<lambda>i t. t[SAFECHARS ! i := i]) [0..<length SAFECHARS] (replicate 128 0)"

definition charCodeToInt :: "nat option \<Rightarrow> jsval" where
  "charCodeToInt c =
     (case c of
        None \<Rightarrow> VUndefined
      | Some k \<Rightarrow> if k < length charCodeToInt_table
                  then VInt (int (charCodeToInt_table ! k)) else VUndefined)"

text \<open>
  The arithmetic of \<open>out += charCodeToInt[c] * m\<close> and of unary minus. The operands that
  reach them are integers, \<open>undefined\<close> and NaN; anything but two integers gives NaN.
\<close>

fun js_mul :: "jsval \<Rightarrow> jsval \<Rightarrow> jsval" where
  "js_mul (VInt a) (VInt b) = VInt (a * b)"
| "js_mul _ _ = NaN"

fun js_add :: "jsval \<Rightarrow> jsval \<Rightarrow> jsval" where
  "js_add (VInt a) (VInt b) = VInt (a + b)"
| "js_add _ _ = NaN"

fun js_neg :: "jsval \<Rightarrow> jsval" where
  "js_neg (VInt a) = VInt (- a)"
| "js_neg _ = NaN"

section \<open>The numeral codec\<close>

function serializeSize_loop :: "nat \<Rightarrow> jsstring \<Rightarrow> jsstring" where
  "serializeSize_loop i s =
     (let r = i mod NUMSAFECHARS;
          s = s @ intToChar r;
          i = i - r
      in if i = 0 then s else serializeSize_loop (i div NUMSAFECHARS) s)"
  by pat_completeness auto
termination
proof (relation "measure fst")
  show "wf (measure fst)" by simp
next
  fix i :: nat and s x xa xb
  assume "xb = i - x" and "xb \<noteq> 0"
  then have "0 < i" by simp
  have "88 \<le> NUMSAFECHARS" by (simp add: NUMSAFECHARS_def SAFECHARS_def str_def)
  then have "1 < NUMSAFECHARS" by simp
  with \<open>0 < i\<close> have "i div NUMSAFECHARS < i" by simp
  moreover have "xb div NUMSAFECHARS \<le> i div NUMSAFECHARS"
    using \<open>xb = i - x\<close> by (simp add: div_le_mono)
  ultimately show "((xb div NUMSAFECHARS, xa), (i, s)) \<in> measure fst" by simp
qed

declare serializeSize_loop.simps [simp del]

definition serializeSize :: "nat \<Rightarrow> jsstring" where
  "serializeSize i = serializeSize_loop i [] @ SEPARATORCHAR"

text \<open>
  \<open>deserializeSize\<close> reads the global cursor. Its first character is taken as a digit
  without being compared to the separator; the loop then reads until it meets the
  separator. \<open>charCodeAt\<close> past the end is NaN, which differs from the separator's code,
  so the loop has no other exit: it is a partial function, \<open>None\<close> when it never returns.
\<close>

partial_function (option) deserializeSize_loop ::
    "jsstring \<Rightarrow> nat \<Rightarrow> jsval \<Rightarrow> nat \<Rightarrow> (jsval \<times> nat) option" where
  "deserializeSize_loop readStr readPtr out m =
     (let c = charCodeAt readStr readPtr;
          readPtr = readPtr + 1
      in if c \<noteq> Some SEPARATORCHARCODE
         then deserializeSize_loop readStr readPtr
                (js_add out (js_mul (charCodeToInt c) (VInt (int m)))) (m * NUMSAFECHARS)
         else Some (out, readPtr))"

declare deserializeSize_loop.simps [code]

definition deserializeSize :: "jsstring \<Rightarrow> nat \<Rightarrow> (jsval \<times> nat) option" where
  "deserializeSize readStr readPtr =
     (let c = charCodeAt readStr readPtr;
          readPtr = readPtr + 1;
          out = charCodeToInt c;
          m = NUMSAFECHARS
      in deserializeSize_loop readStr readPtr out m)"


section \<open>Recognising a serialized string\<close>

definition canDeserialize :: "jsval \<Rightarrow> bool" where
  "canDeserialize s =
     (typeof s = TString \<and>
      (case s of
         VStr t \<Rightarrow> startsWith t MAGICLZ4PREFIX \<or> startsWith t MAGICPREFIX
       | _ \<Rightarrow> False))"

section \<open>Configuration\<close>

fun js_ge :: "host \<Rightarrow> jsval \<Rightarrow> int \<Rightarrow> bool" where
  "js_ge h (VInt n) k = (k \<le> n)"
| "js_ge h (VFloat t) k = float_ge h t k"
| "js_ge h _ k = False"

text \<open>
  A configuration object is the list of its own enumerable properties, in order.
  \<open>Object.keys\<close> gives the array of the property names, and \<open>for (const key in array)\<close>
  enumerates the property names of that array, which are its indices as decimal text.
\<close>

type_synonym config = "(jsstring \<times> jsval) list"

definition hasOwnProperty :: "config \<Rightarrow> jsstring \<Rightarrow> bool" where
  "hasOwnProperty obj key = (map_of obj key \<noteq> None)"

definition getprop :: "config \<Rightarrow> jsstring \<Rightarrow> jsval" where
  "getprop obj key = (case map_of obj key of None \<Rightarrow> VUndefined | Some v \<Rightarrow> v)"

fun setprop :: "config \<Rightarrow> jsstring \<Rightarrow> jsval \<Rightarrow> config" where
  "setprop [] key val = [(key, val)]"
| "setprop ((k, v) # obj) key val =
     (if k = key then (k, val) # obj else (k, v) # setprop obj key val)"

definition Object_keys :: "config \<Rightarrow> jsstring list" where
  "Object_keys obj = map fst obj"

definition for_in_array :: "'a list \<Rightarrow> jsstring list" where
  "for_in_array arr = map decimal [0..<length arr]"

definition defaultConfig :: config where
  "defaultConfig = [(str ''maxThreadCount'', VInt 2), (str ''threadTTL'', VInt 5000)]"

definition validateConfig :: "host \<Rightarrow> jsstring \<Rightarrow> jsval \<Rightarrow> bool" where
  "validateConfig h key val =
     (if key = str ''maxThreadCount'' then js_ge h val 1
      else if key = str ''threadTTL'' then js_ge h val 0
      else False)"

definition getConfig :: "config \<Rightarrow> config" where
  "getConfig currentConfig = currentConfig"

definition setConfig_body :: "host \<Rightarrow> config \<Rightarrow> jsstring \<Rightarrow> config \<Rightarrow> config" where
  "setConfig_body h config key currentConfig =
     (if hasOwnProperty defaultConfig key = False then currentConfig
      else let val = getprop config key
           in if typeof val \<noteq> typeof (getprop defaultConfig key) then currentConfig
              else if validateConfig h key val = False then currentConfig
              else setprop currentConfig key val)"

definition setConfig :: "host \<Rightarrow> config \<Rightarrow> config \<Rightarrow> config" where
  "setConfig h config currentConfig =
     fold (setConfig_body h config) (for_in_array (Object_keys config)) currentConfig"

section \<open>Type tags\<close>

definition I_STRING_SMALL :: nat where "I_STRING_SMALL = 1"
definition I_STRING_LARGE :: nat where "I_STRING_LARGE = 2"
definition I_ZERO :: nat where "I_ZERO = 3"
definition I_INTEGER_SMALL_POS :: nat where "I_INTEGER_SMALL_POS = 4"
definition I_INTEGER_SMALL_NEG :: nat where "I_INTEGER_SMALL_NEG = 5"
definition I_INTEGER_LARGE_POS :: nat where "I_INTEGER_LARGE_POS = 6"
definition I_INTEGER_LARGE_NEG :: nat where "I_INTEGER_LARGE_NEG = 7"
definition I_BOOL_FALSE :: nat where "I_BOOL_FALSE = 8"
definition I_BOOL_TRUE :: nat where "I_BOOL_TRUE = 9"
definition I_NULL :: nat where "I_NULL = 10"
definition I_UNDEFINED :: nat where "I_UNDEFINED = 11"
definition I_FLOAT :: nat where "I_FLOAT = 12"
definition I_REGEXP :: nat where "I_REGEXP = 13"
definition I_DATE :: nat where "I_DATE = 14"
definition I_REFERENCE :: nat where "I_REFERENCE = 15"
definition I_SMALL_OBJECT :: nat where "I_SMALL_OBJECT = 16"
definition I_LARGE_OBJECT :: nat where "I_LARGE_OBJECT = 17"
definition I_ARRAY_SMALL :: nat where "I_ARRAY_SMALL = 18"
definition I_ARRAY_LARGE :: nat where "I_ARRAY_LARGE = 19"
definition I_SET_SMALL :: nat where "I_SET_SMALL = 20"
definition I_SET_LARGE :: nat where "I_SET_LARGE = 21"
definition I_MAP_SMALL :: nat where "I_MAP_SMALL = 22"
definition I_MAP_LARGE :: nat where "I_MAP_LARGE = 23"
definition I_ARRAYBUFFER :: nat where "I_ARRAYBUFFER = 24"
definition I_INT8ARRAY :: nat where "I_INT8ARRAY = 25"
definition I_UINT8ARRAY :: nat where "I_UINT8ARRAY = 26"
definition I_UINT8CLAMPEDARRAY :: nat where "I_UINT8CLAMPEDARRAY = 27"
definition I_INT16ARRAY :: nat where "I_INT16ARRAY = 28"
definition I_UINT16ARRAY :: nat where "I_UINT16ARRAY = 29"
definition I_INT32ARRAY :: nat where "I_INT32ARRAY = 30"
definition I_UINT32ARRAY :: nat where "I_UINT32ARRAY = 31"
definition I_FLOAT32ARRAY :: nat where "I_FLOAT32ARRAY = 32"
definition I_FLOAT64ARRAY :: nat where "I_FLOAT64ARRAY = 33"
definition I_DATAVIEW :: nat where "I_DATAVIEW = 34"

lemmas I_defs =
  I_STRING_SMALL_def I_STRING_LARGE_def I_ZERO_def I_INTEGER_SMALL_POS_def
  I_INTEGER_SMALL_NEG_def I_INTEGER_LARGE_POS_def I_INTEGER_LARGE_NEG_def I_BOOL_FALSE_def
  I_BOOL_TRUE_def I_NULL_def I_UNDEFINED_def I_FLOAT_def I_REGEXP_def I_DATE_def
  I_REFERENCE_def I_SMALL_OBJECT_def I_LARGE_OBJECT_def I_ARRAY_SMALL_def I_ARRAY_LARGE_def
  I_SET_SMALL_def I_SET_LARGE_def I_MAP_SMALL_def I_MAP_LARGE_def I_ARRAYBUFFER_def
  I_INT8ARRAY_def I_UINT8ARRAY_def I_UINT8CLAMPEDARRAY_def I_INT16ARRAY_def
  I_UINT16ARRAY_def I_INT32ARRAY_def I_UINT32ARRAY_def I_FLOAT32ARRAY_def
  I_FLOAT64ARRAY_def I_DATAVIEW_def

definition C_STRING_SMALL :: jsstring where "C_STRING_SMALL = intToChar I_STRING_SMALL"
definition C_STRING_LARGE :: jsstring where "C_STRING_LARGE = intToChar I_STRING_LARGE"
definition C_ZERO :: jsstring where "C_ZERO = intToChar I_ZERO"
definition C_INTEGER_SMALL_POS :: jsstring where
  "C_INTEGER_SMALL_POS = intToChar I_INTEGER_SMALL_POS"
definition C_INTEGER_SMALL_NEG :: jsstring where
  "C_INTEGER_SMALL_NEG = intToChar I_INTEGER_SMALL_NEG"
definition C_INTEGER_LARGE_POS :: jsstring where
  "C_INTEGER_LARGE_POS = intToChar I_INTEGER_LARGE_POS"
definition C_INTEGER_LARGE_NEG :: jsstring where
  "C_INTEGER_LARGE_NEG = intToChar I_INTEGER_LARGE_NEG"
definition C_BOOL_FALSE :: jsstring where "C_BOOL_FALSE = intToChar I_BOOL_FALSE"
definition C_BOOL_TRUE :: jsstring where "C_BOOL_TRUE = intToChar I_BOOL_TRUE"
definition C_NULL :: jsstring where "C_NULL = intToChar I_NULL"
definition C_UNDEFINED :: jsstring where "C_UNDEFINED = intToChar I_UNDEFINED"
definition C_FLOAT :: jsstring where "C_FLOAT = intToChar I_FLOAT"
definition C_REGEXP :: jsstring where "C_REGEXP = intToChar I_REGEXP"
definition C_DATE :: jsstring where "C_DATE = intToChar I_DATE"
definition C_REFERENCE :: jsstring where "C_REFERENCE = intToChar I_REFERENCE"
definition C_SMALL_OBJECT :: jsstring where "C_SMALL_OBJECT = intToChar I_SMALL_OBJECT"
definition C_LARGE_OBJECT :: jsstring where "C_LARGE_OBJECT = intToChar I_LARGE_OBJECT"
definition C_ARRAY_SMALL :: jsstring where "C_ARRAY_SMALL = intToChar I_ARRAY_SMALL"
definition C_ARRAY_LARGE :: jsstring where "C_ARRAY_LARGE = intToChar I_ARRAY_LARGE"
definition C_SET_SMALL :: jsstring where "C_SET_SMALL = intToChar I_SET_SMALL"
definition C_SET_LARGE :: jsstring where "C_SET_LARGE = intToChar I_SET_LARGE"
definition C_MAP_SMALL :: jsstring where "C_MAP_SMALL = intToChar I_MAP_SMALL"
definition C_MAP_LARGE :: jsstring where "C_MAP_LARGE = intToChar I_MAP_LARGE"
definition C_ARRAYBUFFER :: jsstring where "C_ARRAYBUFFER = intToChar I_ARRAYBUFFER"
definition C_INT8ARRAY :: jsstring where "C_INT8ARRAY = intToChar I_INT8ARRAY"
definition C_UINT8ARRAY :: jsstring where "C_UINT8ARRAY = intToChar I_UINT8ARRAY"
definition C_UINT8CLAMPEDARRAY :: jsstring where
  "C_UINT8CLAMPEDARRAY = intToChar I_UINT8CLAMPEDARRAY"
definition C_INT16ARRAY :: jsstring where "C_INT16ARRAY = intToChar I_INT16ARRAY"
definition C_UINT16ARRAY :: jsstring where "C_UINT16ARRAY = intToChar I_UINT16ARRAY"
definition C_INT32ARRAY :: jsstring where "C_INT32ARRAY = intToChar I_INT32ARRAY"
definition C_UINT32ARRAY :: jsstring where "C_UINT32ARRAY = intToChar I_UINT32ARRAY"
definition C_FLOAT32ARRAY :: jsstring where "C_FLOAT32ARRAY = intToChar I_FLOAT32ARRAY"
definition C_FLOAT64ARRAY :: jsstring where "C_FLOAT64ARRAY = intToChar I_FLOAT64ARRAY"
definition C_DATAVIEW :: jsstring where "C_DATAVIEW = intToChar I_DATAVIEW"

lemmas C_defs =
  C_STRING_SMALL_def C_STRING_LARGE_def C_ZERO_def C_INTEGER_SMALL_POS_def
  C_INTEGER_SMALL_NEG_def C_INTEGER_LARGE_POS_def C_INTEGER_LARGE_NEG_def C_BOOL_FALSE_def
  C_BOOL_TRUE_def C_NULL_def C_UNDEFINED_def C_FLOAT_def C_REGEXP_def C_DATE_def
  C_REFERENCE_def C_SMALL_OBJECT_def C_LARGE_OBJECT_def C_ARRAY_SMALL_def C_ARRAY_LARGE_def
  C_SET_SMALL_def C_SET_LARGE_def C_MAP_SMALL_def C_MAP_LARGE_def C_ARRAYBUFFER_def
  C_INT8ARRAY_def C_UINT8ARRAY_def C_UINT8CLAMPEDARRAY_def C_INT16ARRAY_def
  C_UINT16ARRAY_def C_INT32ARRAY_def C_UINT32ARRAY_def C_FLOAT32ARRAY_def
  C_FLOAT64ARRAY_def C_DATAVIEW_def

section \<open>Outcomes, 32-bit operators and byte buffers\<close>

text \<open>
  What a call of the source does: it returns a value, it throws, or it never returns.
  The last two are no behaviour of the source. The recursive procedures of the model
  carry a bound on their recursion depth, and \<open>OutOfFuel\<close> is the result when the bound
  is too small. \<open>Unmodelled\<close> marks the places where the model does not follow the source:
  a reference to no object, which no value of the host is, and the conversions of the
  host on malformed input that are named where they occur.
\<close>

datatype jserror = TypeError | RangeError | SyntaxError

datatype 'a outcome = Returns 'a | Throws jserror | Diverges | OutOfFuel | Unmodelled

text \<open>
  The operators \<open>>>>\<close>, \<open><<\<close>, \<open>&\<close> and \<open>|\<close> convert their operands to 32-bit integers.
\<close>

definition ToUint32 :: "int \<Rightarrow> int" where
  "ToUint32 x = x mod 2 ^ 32"

definition ToInt32 :: "int \<Rightarrow> int" where
  "ToInt32 x = (x + 2 ^ 31) mod 2 ^ 32 - 2 ^ 31"

definition ursh :: "int \<Rightarrow> nat \<Rightarrow> int" where
  "ursh x k = ToUint32 x div 2 ^ k"

definition shl :: "int \<Rightarrow> nat \<Rightarrow> int" where
  "shl x k = ToInt32 (ToInt32 x * 2 ^ k)"

definition band :: "int \<Rightarrow> int \<Rightarrow> int" where
  "band x y = and (ToInt32 x) (ToInt32 y)"

definition bor :: "int \<Rightarrow> int \<Rightarrow> int" where
  "bor x y = or (ToInt32 x) (ToInt32 y)"

text \<open>The integer that a store into a typed array starts from: NaN and \<open>undefined\<close> store 0.\<close>

fun ToIntegerOrZero :: "jsval \<Rightarrow> int" where
  "ToIntegerOrZero (VInt n) = n"
| "ToIntegerOrZero _ = 0"

text \<open>
  A byte buffer is the list of its bytes. The typed-array views read and write it in
  little-endian order; an index outside a view reads \<open>undefined\<close> and a store there is
  ignored.
\<close>

definition byte_at :: "byte list \<Rightarrow> nat \<Rightarrow> int" where
  "byte_at bs i = uint (bs ! i)"

definition Uint32Array_get :: "byte list \<Rightarrow> nat \<Rightarrow> int" where
  "Uint32Array_get bs i =
     byte_at bs (4 * i) + 256 * byte_at bs (4 * i + 1) + 65536 * byte_at bs (4 * i + 2)
       + 16777216 * byte_at bs (4 * i + 3)"

definition Int32Array_get :: "byte list \<Rightarrow> nat \<Rightarrow> int" where
  "Int32Array_get bs i = ToInt32 (Uint32Array_get bs i)"

definition Int8Array_get :: "byte list \<Rightarrow> nat \<Rightarrow> int" where
  "Int8Array_get bs i = sint (bs ! i)"

definition Uint8Array_set :: "byte list \<Rightarrow> nat \<Rightarrow> int \<Rightarrow> byte list" where
  "Uint8Array_set bs i v = (if i < length bs then bs[i := word_of_int v] else bs)"

definition Int32Array_set :: "byte list \<Rightarrow> nat \<Rightarrow> int \<Rightarrow> byte list" where
  "Int32Array_set bs i v =
     bs[4 * i := word_of_int v, 4 * i + 1 := word_of_int (v div 256),
        4 * i + 2 := word_of_int (v div 65536), 4 * i + 3 := word_of_int (v div 16777216)]"

section \<open>The byte-buffer sub-codec\<close>

text \<open>
  \<open>analyzeArrayBuffer\<close> first finds \<open>notzeroCount\<close>, one more than the index of the last
  32-bit word that is not zero, scanning the words downwards; the bytes after the last
  whole word are not looked at.
\<close>

fun notzeroCount_scan :: "byte list \<Rightarrow> nat \<Rightarrow> nat" where
  "notzeroCount_scan arrbuf 0 = 0"
| "notzeroCount_scan arrbuf (Suc i) =
     (if Int32Array_get arrbuf i = 0 then notzeroCount_scan arrbuf i else i + 1)"

function sparseSize_scan :: "host \<Rightarrow> byte list \<Rightarrow> int \<Rightarrow> nat \<Rightarrow> nat \<Rightarrow> int \<Rightarrow> bool" where
  "sparseSize_scan h arrbuf denseSize n i sparseSize =
     (if i < n then
        let v = Int32Array_get arrbuf i;
            sparseSize =
              (if v = 0 then sparseSize + 1
               else let sparseSize = sparseSize + 2
                    in if v \<ge> int NUMSAFECHARS then sparseSize + (log88_floor h v + 1)
                       else if v \<le> - int NUMSAFECHARS
                            then sparseSize + (log88_floor h (- v) + 1)
                            else sparseSize)
        in if sparseSize > denseSize then True
           else sparseSize_scan h arrbuf denseSize n (i + 1) sparseSize
      else False)"
  by pat_completeness auto
termination
  by (relation "measure (\<lambda>(h, arrbuf, denseSize, n, i, sparseSize). n - i)") auto

declare sparseSize_scan.simps [simp del]

record arrbuffDetails =
  contentByteLength :: nat
  dense :: bool

definition analyzeArrayBuffer :: "host \<Rightarrow> byte list \<Rightarrow> arrbuffDetails" where
  "analyzeArrayBuffer h arrbuf =
     (let byteLength = length arrbuf;
          int32len = nat (ursh (int byteLength) 2);
          notzeroCount = notzeroCount_scan arrbuf int32len;
          contentByteLength =
            (if notzeroCount + 1 \<le> int32len then nat (shl (int notzeroCount) 2)
             else byteLength);
          contentInt32Len = nat (ursh (int contentByteLength) 2);
          contentInt32Rem = band (int contentByteLength) 3;
          denseSize = int contentInt32Len * 5
                      + (if contentInt32Rem \<noteq> 0 then contentInt32Rem + 1 else 0)
      in \<lparr> contentByteLength = contentByteLength,
           dense = sparseSize_scan h arrbuf denseSize contentInt32Len 0 0 \<rparr>)"

text \<open>
  The dense form: five base-88 digits for each whole word, then two to four digits for
  the one to three bytes that remain. \<open>v / NUMSAFECHARS | 0\<close> is the integer quotient, the
  operand being below \<open>2^32\<close>. The bytes written are codes of safe characters, which the
  text decoder maps to the same code units.
\<close>

definition dense_word :: "int \<Rightarrow> nat list" where
  "dense_word v0 =
     (let N = int NUMSAFECHARS;
          c0 = intToCharCode (nat (v0 mod N)); v1 = ToInt32 (v0 div N);
          c1 = intToCharCode (nat (v1 mod N)); v2 = ToInt32 (v1 div N);
          c2 = intToCharCode (nat (v2 mod N)); v3 = ToInt32 (v2 div N);
          c3 = intToCharCode (nat (v3 mod N)); v4 = ToInt32 (v3 div N);
          c4 = intToCharCode (nat v4)
      in [c0, c1, c2, c3, c4])"

definition dense_tail :: "byte list \<Rightarrow> nat \<Rightarrow> nat \<Rightarrow> nat list" where
  "dense_tail arrbuf n m =
     (let N = int NUMSAFECHARS;
          v = byte_at arrbuf n;
          v = (if m > 1
               then let v = v + shl (byte_at arrbuf (n + 1)) 8
                    in if m > 2 then v + shl (byte_at arrbuf (n + 2)) 16 else v
               else v);
          c0 = intToCharCode (nat (v mod N)); v = ToInt32 (v div N);
          c1 = intToCharCode (nat (v mod N))
      in if m > 1
         then let v = ToInt32 (v div N); c2 = intToCharCode (nat (v mod N))
              in if m > 2
                 then let v = ToInt32 (v div N); c3 = intToCharCode (nat (v mod N))
                      in [c0, c1, c2, c3]
                 else [c0, c1, c2]
         else [c0, c1])"

definition denseArrayBufferToStr :: "byte list \<Rightarrow> nat \<Rightarrow> jsstring" where
  "denseArrayBufferToStr arrbuf end =
     (let m = end mod 4;
          n = end - m;
          uin32len = nat (ursh (int n) 2)
      in concat (map (\<lambda>i. dense_word (Uint32Array_get arrbuf i)) [0..<uin32len])
         @ (if m \<noteq> 0 then dense_tail arrbuf n m else []))"

definition BASE88_POW :: "nat \<Rightarrow> int" where
  "BASE88_POW k = int NUMSAFECHARS ^ k"

definition dense_digit :: "jsstring \<Rightarrow> nat \<Rightarrow> nat \<Rightarrow> jsval" where
  "dense_digit base88str i k =
     js_mul (VInt (BASE88_POW k)) (charCodeToInt (charCodeAt base88str (i + k)))"

fun dense_words_from :: "jsstring \<Rightarrow> nat \<Rightarrow> nat \<Rightarrow> byte list \<Rightarrow> byte list" where
  "dense_words_from base88str 0 j arrbuf = arrbuf"
| "dense_words_from base88str (Suc cnt) j arrbuf =
     (let i = 5 * j;
          v = dense_digit base88str i 0;
          v = js_add v (dense_digit base88str i 1);
          v = js_add v (dense_digit base88str i 2);
          v = js_add v (dense_digit base88str i 3);
          v = js_add v (dense_digit base88str i 4)
      in dense_words_from base88str cnt (j + 1) (Int32Array_set arrbuf j (ToIntegerOrZero v)))"

definition denseArrayBufferFromStr :: "jsstring \<Rightarrow> byte list \<Rightarrow> byte list outcome" where
  "denseArrayBufferFromStr base88str arrbuf =
     (let end = length base88str;
          m = end mod 5;
          n = end - m;
          uin32len = nat (ursh (int (n div 5 * 4)) 2)
      in if 4 * uin32len > length arrbuf then Throws RangeError
         else
           let arrbuf = dense_words_from base88str (n div 5) 0 arrbuf;
               j = n div 5
           in if m = 0 then Returns arrbuf
              else
                let v = js_add (dense_digit base88str n 0) (dense_digit base88str n 1);
                    v = (if m > 2
                         then let v = js_add v (dense_digit base88str n 2)
                              in if m > 3 then js_add v (dense_digit base88str n 3) else v
                         else v);
                    off = nat (shl (int j) 2)
                in if off > length arrbuf then Throws RangeError
                   else
                     let uint8arr = drop off arrbuf;
                         v0 = ToIntegerOrZero v;
                         uint8arr = Uint8Array_set uint8arr 0 (band v0 255);
                         uint8arr =
                           (if v \<noteq> VInt 0
                            then let v1 = ursh v0 8;
                                     uint8arr = Uint8Array_set uint8arr 1 (band v1 255)
                                 in if v1 \<noteq> 0
                                    then let v2 = ursh v1 8
                                         in Uint8Array_set uint8arr 2 (band v2 255)
                                    else uint8arr
                            else uint8arr)
                     in Returns (take off arrbuf @ uint8arr))"

text \<open>
  The sparse form: the content length as a numeral, then each whole word as a signed
  32-bit integer and each remaining byte as a signed 8-bit integer, tagged like a number.
\<close>

definition sparse_item :: "int \<Rightarrow> jsstring" where
  "sparse_item n =
     (if n = 0 then C_ZERO
      else if n \<ge> int NUMSAFECHARS then C_INTEGER_LARGE_POS @ serializeSize (nat n)
      else if n > 0 then C_INTEGER_SMALL_POS @ intToChar (nat n)
      else if n > - int NUMSAFECHARS then C_INTEGER_SMALL_NEG @ intToChar (nat (- n))
      else C_INTEGER_LARGE_NEG @ serializeSize (nat (- n)))"

definition sparseArrayBufferToStr :: "byte list \<Rightarrow> nat \<Rightarrow> jsstring" where
  "sparseArrayBufferToStr arrbuf end =
     (let int32len = nat (ursh (int end) 2);
          int8len = nat (band (int end) 3)
      in serializeSize end
         @ concat (map (\<lambda>i. sparse_item (Int32Array_get arrbuf i)) [0..<int32len])
         @ (if int8len \<noteq> 0
            then concat (map (\<lambda>i. sparse_item (Int8Array_get arrbuf (end - int8len + i)))
                           [0..<int8len])
            else []))"

text \<open>
  Reading one sparse item: the value to store, if any, and the new cursor. \<open>None\<close> is a
  numeral without its separator, on which \<open>deserializeSize\<close> never returns.
\<close>

definition sparse_item_from :: "jsstring \<Rightarrow> nat \<Rightarrow> (jsval option \<times> nat) option" where
  "sparse_item_from readStr readPtr =
     (let type = charCodeToInt (charCodeAt readStr readPtr);
          readPtr = readPtr + 1
      in if type = VInt (int I_ZERO) then Some (None, readPtr)
         else if type = VInt (int I_INTEGER_SMALL_POS)
           then Some (Some (charCodeToInt (charCodeAt readStr readPtr)), readPtr + 1)
         else if type = VInt (int I_INTEGER_SMALL_NEG)
           then Some (Some (js_neg (charCodeToInt (charCodeAt readStr readPtr))), readPtr + 1)
         else if type = VInt (int I_INTEGER_LARGE_POS)
           then (case deserializeSize readStr readPtr of
                   None \<Rightarrow> None
                 | Some (v, readPtr) \<Rightarrow> Some (Some v, readPtr))
         else if type = VInt (int I_INTEGER_LARGE_NEG)
           then (case deserializeSize readStr readPtr of
                   None \<Rightarrow> None
                 | Some (v, readPtr) \<Rightarrow> Some (Some (js_neg v), readPtr))
         else Some (None, readPtr))"

fun sparse_int32_from ::
    "jsstring \<Rightarrow> nat \<Rightarrow> nat \<Rightarrow> nat \<Rightarrow> byte list \<Rightarrow> (nat \<times> byte list) option" where
  "sparse_int32_from readStr 0 i readPtr arrbuf = Some (readPtr, arrbuf)"
| "sparse_int32_from readStr (Suc cnt) i readPtr arrbuf =
     (case sparse_item_from readStr readPtr of
        None \<Rightarrow> None
      | Some (None, readPtr) \<Rightarrow> sparse_int32_from readStr cnt (i + 1) readPtr arrbuf
      | Some (Some v, readPtr) \<Rightarrow>
          sparse_int32_from readStr cnt (i + 1) readPtr
            (Int32Array_set arrbuf i (ToIntegerOrZero v)))"

fun sparse_int8_from ::
    "jsstring \<Rightarrow> nat \<Rightarrow> nat \<Rightarrow> nat \<Rightarrow> byte list \<Rightarrow> (nat \<times> byte list) option" where
  "sparse_int8_from readStr 0 i readPtr arrbuf = Some (readPtr, arrbuf)"
| "sparse_int8_from readStr (Suc cnt) i readPtr arrbuf =
     (case sparse_item_from readStr readPtr of
        None \<Rightarrow> None
      | Some (None, readPtr) \<Rightarrow> sparse_int8_from readStr cnt (i + 1) readPtr arrbuf
      | Some (Some v, readPtr) \<Rightarrow>
          sparse_int8_from readStr cnt (i + 1) readPtr
            (Uint8Array_set arrbuf i (ToIntegerOrZero v)))"

definition sparseArrayBufferFromStr :: "jsstring \<Rightarrow> byte list \<Rightarrow> byte list outcome" where
  "sparseArrayBufferFromStr s arrbuf =
     (case deserializeSize s 0 of
        None \<Rightarrow> Diverges
      | Some (end, readPtr) \<Rightarrow>
          let end = ToIntegerOrZero end;
              int32len = nat (ursh end 2)
          in if 4 * int32len > length arrbuf then Throws RangeError
             else
               (case sparse_int32_from s int32len 0 readPtr arrbuf of
                  None \<Rightarrow> Diverges
                | Some (readPtr, arrbuf) \<Rightarrow>
                    let int8len = nat (band end 3)
                    in if int8len \<noteq> 0
                       then if end - int int8len < 0 \<or> nat end > length arrbuf
                            then Throws RangeError
                            else
                              (case sparse_int8_from s int8len (nat end - int8len)
                                      readPtr arrbuf of
                                 None \<Rightarrow> Diverges
                               | Some (readPtr, arrbuf) \<Rightarrow> Returns arrbuf)
                       else Returns arrbuf))"

text \<open>
  The two halves of the buffer sub-codec as \<open>_serialize\<close> and \<open>_deserialize\<close> use them:
  the flag and the text written for a buffer, and the buffer rebuilt from the declared
  byte length, the flag and the text.
\<close>

definition arraybuffer_to_str :: "host \<Rightarrow> byte list \<Rightarrow> bool \<times> jsstring" where
  "arraybuffer_to_str h data =
     (let arrbuffDetails = analyzeArrayBuffer h data
      in (dense arrbuffDetails,
          if dense arrbuffDetails
          then denseArrayBufferToStr data (contentByteLength arrbuffDetails)
          else sparseArrayBufferToStr data (contentByteLength arrbuffDetails)))"

definition arraybuffer_from_str :: "nat \<Rightarrow> bool \<Rightarrow> jsstring \<Rightarrow> byte list outcome" where
  "arraybuffer_from_str byteLength is_dense s =
     (let arrbuf = replicate byteLength 0
      in if is_dense then denseArrayBufferFromStr s arrbuf
         else sparseArrayBufferFromStr s arrbuf)"


section \<open>LZ4 block compression\<close>

text \<open>
  The block codec works on byte arrays. A read outside an array is \<open>undefined\<close>, which the
  shift and or operators take as 0 and which is identical to no byte. The output array of
  the encoder has \<open>oLen\<close> bytes, all zero at first; a store outside it is ignored.
\<close>

definition rd :: "byte list \<Rightarrow> int \<Rightarrow> int option" where
  "rd buf i = (if 0 \<le> i \<and> i < int (length buf) then Some (uint (buf ! nat i)) else None)"

definition rd0 :: "byte list \<Rightarrow> int \<Rightarrow> int" where
  "rd0 buf i = (case rd buf i of None \<Rightarrow> 0 | Some b \<Rightarrow> b)"

definition put :: "byte list \<times> nat \<Rightarrow> int \<Rightarrow> byte list \<times> nat" where
  "put ob v = (case ob of (oBuf, oPos) \<Rightarrow> (Uint8Array_set oBuf oPos v, oPos + 1))"

definition encodeBound :: "int \<Rightarrow> int" where
  "encodeBound sz = (if sz > 0x7E000000 then 0 else sz + ToInt32 (sz div 255) + 16)"

definition lz4_hash :: "int \<Rightarrow> int" where
  "lz4_hash sequence =
     band (band (sequence * 0x9E37) 0xFFFF + ursh (sequence * 0x79B1) 16) 0xFFFF"

text \<open>
  The match-finding loop. It returns the position where it stopped, the reference
  position and offset it last computed, and the hash table. It stops at a match, with
  \<open>iPos \<le> lastMatchPos\<close>, or past \<open>lastMatchPos\<close>.
\<close>

function find_match ::
    "byte list \<Rightarrow> int \<Rightarrow> (int \<Rightarrow> int) \<Rightarrow> nat \<Rightarrow> int \<Rightarrow> int \<Rightarrow> int
     \<Rightarrow> nat \<times> int \<times> int \<times> (int \<Rightarrow> int)" where
  "find_match iBuf lastMatchPos hashTable iPos sequence refPos mOffset =
     (if int iPos \<le> lastMatchPos then
        let sequence = bor (ursh sequence 8) (shl (rd0 iBuf (int iPos + 3)) 24);
            hash = lz4_hash sequence;
            refPos = hashTable hash;
            hashTable = hashTable(hash := int iPos);
            mOffset = int iPos - refPos
        in if mOffset < 65536 \<and>
              rd iBuf (refPos + 0) = Some (band sequence 0xFF) \<and>
              rd iBuf (refPos + 1) = Some (band (ursh sequence 8) 0xFF) \<and>
              rd iBuf (refPos + 2) = Some (band (ursh sequence 16) 0xFF) \<and>
              rd iBuf (refPos + 3) = Some (band (ursh sequence 24) 0xFF)
           then (iPos, refPos, mOffset, hashTable)
           else find_match iBuf lastMatchPos hashTable (iPos + 1) sequence refPos mOffset
      else (iPos, refPos, mOffset, hashTable))"
  by pat_completeness auto
termination
  by (relation "measure (\<lambda>(iBuf, lastMatchPos, hashTable, iPos, sequence, refPos, mOffset).
        nat (lastMatchPos + 1 - int iPos))") auto

declare find_match.simps [simp del]

function extend_match :: "byte list \<Rightarrow> int \<Rightarrow> nat \<Rightarrow> int \<Rightarrow> nat" where
  "extend_match iBuf lastLiteralPos iPos refPos =
     (if int iPos < lastLiteralPos \<and> rd iBuf (int iPos) = rd iBuf refPos
      then extend_match iBuf lastLiteralPos (iPos + 1) (refPos + 1)
      else iPos)"
  by pat_completeness auto
termination
  by (relation "measure (\<lambda>(iBuf, lastLiteralPos, iPos, refPos).
        nat (lastLiteralPos - int iPos))") auto

declare extend_match.simps [simp del]

text \<open>The bytes that extend a length of 15 or more: a run of 255, then the remainder.\<close>

function write_length :: "byte list \<times> nat \<Rightarrow> nat \<Rightarrow> byte list \<times> nat" where
  "write_length ob l =
     (if l \<ge> 255 then write_length (put ob 255) (l - 255) else put ob (int l))"
  by pat_completeness auto
termination
  by (relation "measure snd") auto

declare write_length.simps [simp del]

fun write_literals ::
    "byte list \<Rightarrow> byte list \<times> nat \<Rightarrow> nat \<Rightarrow> nat \<Rightarrow> (byte list \<times> nat) \<times> nat" where
  "write_literals iBuf ob anchorPos 0 = (ob, anchorPos)"
| "write_literals iBuf ob anchorPos (Suc lLen) =
     write_literals iBuf (put ob (rd0 iBuf (int anchorPos))) (anchorPos + 1) lLen"

definition write_token :: "byte list \<times> nat \<Rightarrow> nat \<Rightarrow> int \<Rightarrow> byte list \<times> nat" where
  "write_token ob lLen token =
     (if lLen \<ge> 15 then write_length (put ob (bor 0xF0 token)) (lLen - 15)
      else put ob (bor (shl (int lLen) 4) token))"

lemma find_match_ge:
  "iPos \<le> fst (find_match iBuf lastMatchPos hashTable iPos sequence refPos mOffset)"
proof (induction iBuf lastMatchPos hashTable iPos sequence refPos mOffset
       rule: find_match.induct)
  case (1 iBuf lastMatchPos hashTable iPos sequence refPos mOffset)
  define sequence' where "sequence' = bor (ursh sequence 8) (shl (rd0 iBuf (int iPos + 3)) 24)"
  define hashTable' where "hashTable' = hashTable(lz4_hash sequence' := int iPos)"
  define refPos' where "refPos' = hashTable (lz4_hash sequence')"
  have ih: "int iPos \<le> lastMatchPos \<Longrightarrow>
        \<not> (int iPos - refPos' < 65536 \<and>
              rd iBuf (refPos' + 0) = Some (band sequence' 0xFF) \<and>
              rd iBuf (refPos' + 1) = Some (band (ursh sequence' 8) 0xFF) \<and>
              rd iBuf (refPos' + 2) = Some (band (ursh sequence' 16) 0xFF) \<and>
              rd iBuf (refPos' + 3) = Some (band (ursh sequence' 24) 0xFF)) \<Longrightarrow>
        iPos + 1 \<le> fst (find_match iBuf lastMatchPos hashTable' (iPos + 1) sequence' refPos'
                            (int iPos - refPos'))"
    using "1.IH" [OF _ refl refl refl refl refl]
    unfolding sequence'_def hashTable'_def refPos'_def by blast
  show ?case
    apply (subst find_match.simps)
    apply (simp only: Let_def)
    apply (fold sequence'_def)
    apply (fold refPos'_def hashTable'_def)
    using ih by (auto split: if_splits)
qed

lemma extend_match_ge: "iPos \<le> extend_match iBuf lastLiteralPos iPos refPos"
proof (induction iBuf lastLiteralPos iPos refPos rule: extend_match.induct)
  case (1 iBuf lastLiteralPos iPos refPos)
  show ?case
    using "1.IH" by (subst extend_match.simps) (auto intro: Suc_leD)
qed

text \<open>
  The sequence-finding loop: from \<open>iPos\<close>, with the literals since \<open>anchorPos\<close> pending.
  It returns the anchor and the output when no further match is found.
\<close>

function encode_sequences ::
    "byte list \<Rightarrow> int \<Rightarrow> int \<Rightarrow> (int \<Rightarrow> int) \<Rightarrow> nat \<Rightarrow> nat \<Rightarrow> byte list \<times> nat
     \<Rightarrow> nat \<times> (byte list \<times> nat)" where
  "encode_sequences iBuf lastMatchPos lastLiteralPos hashTable iPos anchorPos ob =
     (let sequence = bor (bor (shl (rd0 iBuf (int iPos)) 8) (shl (rd0 iBuf (int iPos + 1)) 16))
                         (shl (rd0 iBuf (int iPos + 2)) 24)
      in case find_match iBuf lastMatchPos hashTable iPos sequence 0 0 of
           (iPos1, refPos, mOffset, hashTable) \<Rightarrow>
             if int iPos1 > lastMatchPos then (anchorPos, ob)
             else
               let lLen = iPos1 - anchorPos;
                   iPos2 = extend_match iBuf lastLiteralPos (iPos1 + 4) (refPos + 4);
                   mLen = iPos2 - iPos1;
                   token = (if mLen < 19 then int mLen - 4 else 15);
                   ob = write_token ob lLen token
               in case write_literals iBuf ob anchorPos lLen of
                    (ob, anchorPos) \<Rightarrow>
                      if mLen = 0 then (anchorPos, ob)
                      else
                        let ob = put (put ob mOffset) (ursh mOffset 8);
                            ob = (if mLen \<ge> 19 then write_length ob (mLen - 19) else ob)
                        in encode_sequences iBuf lastMatchPos lastLiteralPos hashTable
                             iPos2 iPos2 ob)"
  by pat_completeness auto
termination
proof (relation "measure (\<lambda>(iBuf, lastMatchPos, lastLiteralPos, hashTable, iPos, anchorPos, ob).
        nat (lastMatchPos + 1 - int iPos))", goal_cases)
  case 1
  show ?case by simp
next
  case (2 iBuf lastMatchPos lastLiteralPos hashTable iPos anchorPos ob x xa y xb
        ya xc yb xd xe xf xg xh xi yc xj xk)
  from \<open>(xa, y) = find_match iBuf lastMatchPos hashTable iPos x 0 0\<close>
  have "xa = fst (find_match iBuf lastMatchPos hashTable iPos x 0 0)"
    by (metis fst_conv)
  then have a: "iPos \<le> xa" using find_match_ge by simp
  from \<open>xe = extend_match iBuf lastLiteralPos (xa + 4) (xb + 4)\<close>
  have b: "xa + 4 \<le> xe" using extend_match_ge by simp
  from a b \<open>\<not> lastMatchPos < int xa\<close> show ?case by simp
qed

declare encode_sequences.simps [simp del]

definition encodeBlock :: "byte list \<Rightarrow> nat \<Rightarrow> byte list outcome" where
  "encodeBlock iBuf oOffset =
     (let iLen = int (length iBuf)
      in if iLen \<ge> 0x7E000000 then Throws RangeError
         else
           let lastMatchPos = iLen - 12;
               lastLiteralPos = iLen - 5;
               hashTable = (\<lambda>_. - 65536);
               oLen = int oOffset + encodeBound iLen;
               oBuf = replicate (nat oLen) 0
           in case encode_sequences iBuf lastMatchPos lastLiteralPos hashTable 0 0
                     (oBuf, oOffset) of
                (anchorPos, ob) \<Rightarrow>
                  let lLen = length iBuf - anchorPos;
                      ob = (if lLen \<ge> 15 then write_length (put ob 0xF0) (lLen - 15)
                            else put ob (shl (int lLen) 4))
                  in case write_literals iBuf ob anchorPos lLen of
                       ((oBuf, oPos), anchorPos) \<Rightarrow> Returns (take oPos oBuf))"


text \<open>
  Decoding. \<open>read_length\<close> is the loop that adds the extension bytes to a length of 15 (or
  19); a read past the end of the input is \<open>undefined\<close>, which ends the loop and makes the
  length NaN (here \<open>None\<close>), so that the copy loop that follows copies nothing.
\<close>

function read_length :: "byte list \<Rightarrow> nat \<Rightarrow> int \<Rightarrow> int option \<times> nat" where
  "read_length iBuf iPos clen =
     (case rd iBuf (int iPos) of
        None \<Rightarrow> (None, iPos + 1)
      | Some l \<Rightarrow>
          if l \<noteq> 255 then (Some (clen + l), iPos + 1)
          else read_length iBuf (iPos + 1) (clen + 255))"
  by pat_completeness auto
termination
proof (relation "measure (\<lambda>(iBuf, iPos, clen). length iBuf - iPos)", goal_cases)
  case 1
  show ?case by simp
next
  case (2 iBuf iPos clen l)
  then have "iPos < length iBuf" by (simp add: rd_def split: if_splits)
  then show ?case by simp
qed

declare read_length.simps [simp del]

fun copy_literals :: "byte list \<Rightarrow> byte list \<times> nat \<Rightarrow> nat \<Rightarrow> nat \<Rightarrow> byte list \<times> nat" where
  "copy_literals iBuf ob iPos 0 = ob"
| "copy_literals iBuf ob iPos (Suc n) =
     copy_literals iBuf (put ob (rd0 iBuf (int iPos))) (iPos + 1) n"

fun copy_match :: "byte list \<times> nat \<Rightarrow> nat \<Rightarrow> nat \<Rightarrow> byte list \<times> nat" where
  "copy_match ob mPos 0 = ob"
| "copy_match ob mPos (Suc n) = copy_match (put ob (rd0 (fst ob) (int mPos))) (mPos + 1) n"

definition copy_count :: "int option \<Rightarrow> nat" where
  "copy_count clen = (case clen of None \<Rightarrow> 0 | Some c \<Rightarrow> nat c)"

lemma read_length_ge: "iPos < snd (read_length iBuf iPos clen)"
proof (induction iBuf iPos clen rule: read_length.induct)
  case (1 iBuf iPos clen)
  show ?case
  proof (cases "rd iBuf (int iPos)")
    case None
    then show ?thesis by (subst read_length.simps) simp
  next
    case (Some l)
    show ?thesis
    proof (cases "l = 255")
      case True
      with Some "1.IH" [OF Some] show ?thesis
        by (subst read_length.simps) (simp add: Suc_lessD)
    next
      case False
      with Some show ?thesis by (subst read_length.simps) simp
    qed
  qed
qed

text \<open>
  The decoding loop, from \<open>iPos\<close> with the output written so far. \<open>None\<close> is the bare
  \<open>return\<close> of the source on a match offset that is zero or reaches before the output.
\<close>

function decode_sequences :: "byte list \<Rightarrow> nat \<Rightarrow> byte list \<times> nat \<Rightarrow> byte list option" where
  "decode_sequences iBuf iPos ob =
     (if iPos < length iBuf then
        let token = rd0 iBuf (int iPos);
            iPos1 = iPos + 1;
            clen = ursh token 4;
            lenpos = (if clen = 15 then read_length iBuf iPos1 clen else (Some clen, iPos1));
            n = (if clen \<noteq> 0 then copy_count (fst lenpos) else 0);
            iPos2 = (if clen \<noteq> 0 then snd lenpos else iPos1);
            ob = copy_literals iBuf ob iPos2 n;
            iPos3 = iPos2 + n
        in if clen \<noteq> 0 \<and> iPos3 = length iBuf then Some (fst ob)
           else
             let mOffset = bor (rd0 iBuf (int iPos3 + 0)) (shl (rd0 iBuf (int iPos3 + 1)) 8)
             in if mOffset = 0 \<or> mOffset > int (snd ob) then None
                else
                  let iPos4 = iPos3 + 2;
                      clen = band token 0x0F + 4;
                      lenpos = (if clen = 19 then read_length iBuf iPos4 clen
                                else (Some clen, iPos4));
                      mPos = snd ob - nat mOffset
                  in decode_sequences iBuf (snd lenpos)
                       (copy_match ob mPos (copy_count (fst lenpos)))
      else Some (fst ob))"
  by pat_completeness auto
termination
proof (relation "measure (\<lambda>(iBuf, iPos, ob). length iBuf - iPos)", goal_cases)
  case 1
  show ?case by simp
next
  case (2 iBuf iPos ob token iPos1 clen lenpos n iPos2 ob' iPos3 mOffset iPos4 clen' lenpos' mPos)
  have a: "iPos1 \<le> iPos2"
    using 2 read_length_ge [of iPos1 iBuf clen] by (auto split: if_splits)
  have b: "iPos4 \<le> snd lenpos'"
    using 2 read_length_ge [of iPos4 iBuf clen'] by (auto split: if_splits)
  from a b 2 have "iPos < snd lenpos'" by simp
  with 2 show ?case by simp
qed

declare decode_sequences.simps [simp del]

definition decodeBlock :: "byte list \<Rightarrow> nat \<Rightarrow> nat \<Rightarrow> byte list option" where
  "decodeBlock iBuf iOffset oLen =
     (let oBuf = replicate oLen 0
      in decode_sequences iBuf iOffset (oBuf, 0))"


section \<open>Objects and the heap\<close>

text \<open>
  An object is a cell of the heap, a value refers to it by its address, and the identity
  of an object is its address. A record object holds its own enumerable properties in
  the order of \<open>Object.keys\<close>; a set and a map hold their entries in insertion order; a
  date holds what \<open>getTime()\<close> returns; a byte buffer holds its bytes and its
  \<open>maxByteLength\<close>; a typed view holds the address of its buffer, its byte offset and its
  length in elements, a \<open>DataView\<close> its length in bytes.
\<close>

datatype viewkind =
    Int8Array | Uint8Array | Uint8ClampedArray | Int16Array | Uint16Array
  | Int32Array | Uint32Array | Float32Array | Float64Array

datatype obj =
    OObject "(jsstring \<times> jsval) list"
  | OArray "jsval list"
  | OSet "jsval list"
  | OMap "(jsval \<times> jsval) list"
  | ORegExp jsstring jsstring
  | ODate jsval
  | OArrayBuffer "byte list" jsval
  | OTypedArray viewkind addr nat nat
  | ODataView addr nat nat

type_synonym heap = "obj list"

definition heap_get :: "heap \<Rightarrow> addr \<Rightarrow> obj option" where
  "heap_get hp a = (if a < length hp then Some (hp ! a) else None)"

fun I_of_viewkind :: "viewkind \<Rightarrow> nat" where
  "I_of_viewkind Int8Array = I_INT8ARRAY"
| "I_of_viewkind Uint8Array = I_UINT8ARRAY"
| "I_of_viewkind Uint8ClampedArray = I_UINT8CLAMPEDARRAY"
| "I_of_viewkind Int16Array = I_INT16ARRAY"
| "I_of_viewkind Uint16Array = I_UINT16ARRAY"
| "I_of_viewkind Int32Array = I_INT32ARRAY"
| "I_of_viewkind Uint32Array = I_UINT32ARRAY"
| "I_of_viewkind Float32Array = I_FLOAT32ARRAY"
| "I_of_viewkind Float64Array = I_FLOAT64ARRAY"

definition typeToSerializedChar :: "viewkind \<Rightarrow> jsstring" where
  "typeToSerializedChar k = intToChar (I_of_viewkind k)"

fun BYTES_PER_ELEMENT :: "viewkind \<Rightarrow> nat" where
  "BYTES_PER_ELEMENT Int8Array = 1"
| "BYTES_PER_ELEMENT Uint8Array = 1"
| "BYTES_PER_ELEMENT Uint8ClampedArray = 1"
| "BYTES_PER_ELEMENT Int16Array = 2"
| "BYTES_PER_ELEMENT Uint16Array = 2"
| "BYTES_PER_ELEMENT Int32Array = 4"
| "BYTES_PER_ELEMENT Uint32Array = 4"
| "BYTES_PER_ELEMENT Float32Array = 4"
| "BYTES_PER_ELEMENT Float64Array = 8"

section \<open>The value serializer\<close>

text \<open>
  The state of the write side: the reference table from object identity to id, the
  fragments pushed on the write buffer, and the reference counter.
\<close>

record wstate =
  writeRefs :: "addr \<Rightarrow> nat option"
  writeBuffer :: "jsstring list"
  w_refCounter :: nat

definition push :: "jsstring list \<Rightarrow> wstate \<Rightarrow> wstate" where
  "push parts w = w\<lparr> writeBuffer := writeBuffer w @ parts \<rparr>"

definition serialize_integer :: "int \<Rightarrow> jsstring" where
  "serialize_integer data =
     (if data \<ge> int NUMSAFECHARS then C_INTEGER_LARGE_POS @ serializeSize (nat data)
      else if data > 0 then C_INTEGER_SMALL_POS @ intToChar (nat data)
      else if data > - int NUMSAFECHARS then C_INTEGER_SMALL_NEG @ intToChar (nat (- data))
      else C_INTEGER_LARGE_NEG @ serializeSize (nat (- data)))"

definition serialize_string :: "jsstring \<Rightarrow> jsstring list" where
  "serialize_string data =
     (if length data < NUMSAFECHARS then [C_STRING_SMALL @ intToChar (length data), data]
      else [C_STRING_LARGE @ serializeSize (length data), data])"

definition serialize_count :: "jsstring \<Rightarrow> jsstring \<Rightarrow> nat \<Rightarrow> jsstring" where
  "serialize_count C_SMALL C_LARGE n =
     (if n < NUMSAFECHARS then C_SMALL @ intToChar n else C_LARGE @ serializeSize n)"

text \<open>
  \<open>_serialize\<close> in two parts. \<open>visit\<close> is what a call does before it visits any child: a
  primitive is pushed at once; a pattern has its two strings as children; a date has its
  time as its child; any other object is looked up in the reference table and either
  answered by a back-reference or registered, before its children, which are then
  listed. The recursion itself visits the children in order by \<open>serialize_each\<close>. It is
  bounded by the number of distinct objects; the model carries a bound \<open>fuel\<close> on its
  depth instead.
  The procedure returns no value, so \<open>C_DATE + _serialize(data.getTime())\<close> first runs the
  call, which pushes the fragments of the number, and then pushes the tag followed by the
  text of \<open>undefined\<close>.
\<close>

datatype wstep =
    WDone "wstate outcome"
  | WKids "jsval list" wstate
  | WDate jsval wstate

fun obind :: "'a outcome \<Rightarrow> ('a \<Rightarrow> 'b outcome) \<Rightarrow> 'b outcome" where
  "obind (Returns x) f = f x"
| "obind (Throws e) f = Throws e"
| "obind Diverges f = Diverges"
| "obind OutOfFuel f = OutOfFuel"
| "obind Unmodelled f = Unmodelled"

definition visit_composite :: "host \<Rightarrow> addr \<Rightarrow> obj \<Rightarrow> wstate \<Rightarrow> wstep" where
  "visit_composite h a ob w =
     (case writeRefs w a of
        Some ref \<Rightarrow> WDone (Returns (push [C_REFERENCE @ serializeSize ref] w))
      | None \<Rightarrow>
          let w = w\<lparr> writeRefs := (writeRefs w)(a \<mapsto> w_refCounter w),
                     w_refCounter := w_refCounter w + 1 \<rparr>
          in case ob of
               OArray vs \<Rightarrow>
                 WKids vs (push [serialize_count C_ARRAY_SMALL C_ARRAY_LARGE (length vs)] w)
             | OSet vs \<Rightarrow>
                 WKids vs (push [serialize_count C_SET_SMALL C_SET_LARGE (length vs)] w)
             | OMap kvs \<Rightarrow>
                 WKids (concat (map (\<lambda>(k, v). [k, v]) kvs))
                   (push [serialize_count C_MAP_SMALL C_MAP_LARGE (length kvs)] w)
             | OArrayBuffer bytes maxByteLength \<Rightarrow>
                 (let w = push [C_ARRAYBUFFER @ serializeSize (length bytes)] w;
                      ds = arraybuffer_to_str h bytes
                  in WKids [maxByteLength, VBool (fst ds), VStr (snd ds)] w)
             | OTypedArray k buffer byteOffset len \<Rightarrow>
                 WKids [VRef buffer]
                   (push [typeToSerializedChar k, serializeSize byteOffset, serializeSize len] w)
             | ODataView buffer byteOffset byteLength \<Rightarrow>
                 WKids [VRef buffer]
                   (push [C_DATAVIEW, serializeSize byteOffset, serializeSize byteLength] w)
             | OObject props \<Rightarrow>
                 WKids (concat (map (\<lambda>(key, v). [VStr key, v]) props))
                   (push [serialize_count C_SMALL_OBJECT C_LARGE_OBJECT (length props)] w)
             | _ \<Rightarrow> WDone Unmodelled)"

definition visit :: "host \<Rightarrow> heap \<Rightarrow> jsval \<Rightarrow> wstate \<Rightarrow> wstep" where
  "visit h hp data w =
     (if data = VInt 0 then WDone (Returns (push [C_ZERO] w))
      else if data = VNull then WDone (Returns (push [C_NULL] w))
      else if data = VUndefined then WDone (Returns (push [C_UNDEFINED] w))
      else case data of
        VStr s \<Rightarrow> WDone (Returns (push (serialize_string s) w))
      | VInt n \<Rightarrow> WDone (Returns (push [serialize_integer n] w))
      | VFloat s \<Rightarrow> WDone (Returns (push [C_FLOAT @ serializeSize (length s), s] w))
      | VBool b \<Rightarrow> WDone (Returns (push [if b then C_BOOL_TRUE else C_BOOL_FALSE] w))
      | VRef a \<Rightarrow>
          (case heap_get hp a of
             None \<Rightarrow> WDone Unmodelled
           | Some (ORegExp source flags) \<Rightarrow> WKids [VStr source, VStr flags] (push [C_REGEXP] w)
           | Some (ODate time) \<Rightarrow> WDate time w
           | Some ob \<Rightarrow> visit_composite h a ob w)
      | _ \<Rightarrow> WDone (Returns w))"

fun serialize_inner :: "nat \<Rightarrow> host \<Rightarrow> heap \<Rightarrow> jsval \<Rightarrow> wstate \<Rightarrow> wstate outcome"
and serialize_each :: "nat \<Rightarrow> host \<Rightarrow> heap \<Rightarrow> jsval list \<Rightarrow> wstate \<Rightarrow> wstate outcome"
where
  "serialize_inner 0 h hp data w = OutOfFuel"
| "serialize_inner (Suc fuel) h hp data w =
     (case visit h hp data w of
        WDone r \<Rightarrow> r
      | WKids vs w \<Rightarrow> serialize_each fuel h hp vs w
      | WDate time w \<Rightarrow>
          obind (serialize_inner fuel h hp time w)
            (\<lambda>w. Returns (push [C_DATE @ str ''undefined''] w)))"
| "serialize_each fuel h hp [] w = Returns w"
| "serialize_each fuel h hp (v # vs) w =
     obind (serialize_inner fuel h hp v w) (\<lambda>w. serialize_each fuel h hp vs w)"

text \<open>
  \<open>serialize\<close>. The compressed form is the serialization of a fresh record
  \<open>{size, data}\<close>, whose \<open>data\<close> is a fresh \<open>Uint8Array\<close> on a fresh buffer: three new cells
  of the heap. The quotient \<open>t.length / s.length\<close> is compared with 0.85 in floating point;
  for lengths below \<open>10^15\<close> this is the comparison of \<open>20 * t.length\<close> with
  \<open>17 * s.length\<close>.
\<close>

definition join :: "jsstring list \<Rightarrow> jsstring" where
  "join parts = concat parts"

definition wstate_init :: wstate where
  "wstate_init = \<lparr> writeRefs = Map.empty, writeBuffer = [], w_refCounter = 1 \<rparr>"

definition serialize_plain :: "nat \<Rightarrow> host \<Rightarrow> heap \<Rightarrow> jsval \<Rightarrow> jsstring outcome" where
  "serialize_plain fuel h hp data =
     obind (serialize_inner fuel h hp data wstate_init)
       (\<lambda>w. Returns (join (MAGICPREFIX # writeBuffer w)))"

definition serialize_lz4 :: "nat \<Rightarrow> host \<Rightarrow> heap \<Rightarrow> jsstring \<Rightarrow> jsstring outcome" where
  "serialize_lz4 fuel h hp s =
     (let uint8ArrayBefore = TextEncoder_encode h s
      in obind (encodeBlock uint8ArrayBefore 0) (\<lambda>uint8ArrayAfter.
           let a = length hp;
               hp = hp @ [OArrayBuffer uint8ArrayAfter (VInt (int (length uint8ArrayAfter))),
                          OTypedArray Uint8Array a 0 (length uint8ArrayAfter),
                          OObject [(str ''size'', VInt (int (length uint8ArrayBefore))),
                                   (str ''data'', VRef (a + 1))]];
               lz4 = VRef (a + 2)
           in obind (serialize_inner fuel h hp lz4 wstate_init)
                (\<lambda>w. Returns (join (MAGICLZ4PREFIX # writeBuffer w)))))"

definition ratio_le_085 :: "nat \<Rightarrow> nat \<Rightarrow> bool" where
  "ratio_le_085 tlen slen = (20 * tlen \<le> 17 * slen)"

definition serialize :: "nat \<Rightarrow> host \<Rightarrow> heap \<Rightarrow> jsval \<Rightarrow> bool \<Rightarrow> jsstring outcome" where
  "serialize fuel h hp data compress =
     obind (serialize_plain fuel h hp data) (\<lambda>s.
       if compress \<noteq> True then Returns s
       else obind (serialize_lz4 fuel h hp s) (\<lambda>t.
              Returns (if ratio_le_085 (length t) (length s) then t else s)))"


section \<open>The value deserializer\<close>

text \<open>
  The state of the read side: the string that is read, the cursor, the end, the
  reference table from id to reconstructed value, the reference counter, and the heap
  of the objects built so far. The cursor is an integer; the fail mark is the largest
  safe integer.
\<close>

record rstate =
  readStr :: jsstring
  readPtr :: int
  readEnd :: int
  readRefs :: "nat \<Rightarrow> jsval option"
  r_refCounter :: nat
  r_heap :: heap

definition read_char :: "rstate \<Rightarrow> jsval \<times> rstate" where
  "read_char st =
     (charCodeToInt (if 0 \<le> readPtr st then charCodeAt (readStr st) (nat (readPtr st))
                     else None),
      st\<lparr> readPtr := readPtr st + 1 \<rparr>)"

definition read_size :: "rstate \<Rightarrow> (jsval \<times> rstate) option" where
  "read_size st =
     (case deserializeSize (readStr st) (nat (readPtr st)) of
        None \<Rightarrow> None
      | Some (v, q) \<Rightarrow> Some (v, st\<lparr> readPtr := int q \<rparr>))"

definition read_small_or_large :: "bool \<Rightarrow> rstate \<Rightarrow> (jsval \<times> rstate) option" where
  "read_small_or_large small st = (if small then Some (read_char st) else read_size st)"

text \<open>
  \<open>beg = readPtr; readPtr += size; readStr.slice(beg, readPtr)\<close>. When the size is not a
  number the cursor becomes NaN, where the model stops.
\<close>

definition read_text :: "jsval \<Rightarrow> rstate \<Rightarrow> (jsstring \<times> rstate) option" where
  "read_text sz st =
     (case sz of
        VInt n \<Rightarrow>
          let beg = readPtr st; fin = readPtr st + n
          in Some (slice (readStr st) (nat beg) (nat fin), st\<lparr> readPtr := fin \<rparr>)
      | _ \<Rightarrow> None)"

definition loop_count :: "jsval \<Rightarrow> nat" where
  "loop_count sz = (case sz of VInt n \<Rightarrow> nat n | _ \<Rightarrow> 0)"

definition strict_eq :: "jsval \<Rightarrow> jsval \<Rightarrow> bool" where
  "strict_eq a b = (a = b \<and> a \<noteq> NaN)"

definition truthy :: "jsval \<Rightarrow> bool" where
  "truthy v =
     (case v of
        VUndefined \<Rightarrow> False | VNull \<Rightarrow> False | VBool b \<Rightarrow> b | VInt n \<Rightarrow> n \<noteq> 0
      | VFloat t \<Rightarrow> VFloat t \<noteq> NaN | VStr s \<Rightarrow> s \<noteq> [] | _ \<Rightarrow> True)"

text \<open>The text of a value that is used as a property name; an object is not followed.\<close>

definition ToString :: "jsval \<Rightarrow> jsstring option" where
  "ToString v =
     (case v of
        VStr s \<Rightarrow> Some s
      | VUndefined \<Rightarrow> Some (str ''undefined'')
      | VNull \<Rightarrow> Some (str ''null'')
      | VBool b \<Rightarrow> Some (if b then str ''true'' else str ''false'')
      | VInt n \<Rightarrow> Some (if n < 0 then str ''-'' @ decimal (nat (- n)) else decimal (nat n))
      | VFloat t \<Rightarrow> Some t
      | _ \<Rightarrow> None)"

text \<open>
  \<open>out[k] = v\<close> on a record object: an existing property keeps its place; a new one whose
  name is an array index goes among the array indices in ascending order, which come
  first; any other new one goes last.
\<close>

definition digits_value :: "jsstring \<Rightarrow> int" where
  "digits_value k = foldl (\<lambda>acc c. 10 * acc + (int c - 48)) 0 k"

definition array_index :: "jsstring \<Rightarrow> int option" where
  "array_index k =
     (if k \<noteq> [] \<and> (\<forall>c \<in> set k. 48 \<le> c \<and> c \<le> 57) \<and> (length k = 1 \<or> hd k \<noteq> 48)
         \<and> length k \<le> 10 \<and> digits_value k < 2 ^ 32 - 1
      then Some (digits_value k) else None)"

fun obj_insert :: "(jsstring \<times> jsval) list \<Rightarrow> jsstring \<Rightarrow> jsval \<Rightarrow> (jsstring \<times> jsval) list" where
  "obj_insert [] k v = [(k, v)]"
| "obj_insert ((k', v') # ps) k v =
     (case array_index k of
        None \<Rightarrow> (k', v') # obj_insert ps k v
      | Some i \<Rightarrow>
          (case array_index k' of
             None \<Rightarrow> (k, v) # (k', v') # ps
           | Some j \<Rightarrow> if j < i then (k', v') # obj_insert ps k v else (k, v) # (k', v') # ps))"

definition obj_set :: "(jsstring \<times> jsval) list \<Rightarrow> jsstring \<Rightarrow> jsval \<Rightarrow> (jsstring \<times> jsval) list" where
  "obj_set props k v =
     (if map_of props k \<noteq> None
      then map (\<lambda>(k', v'). if k' = k then (k', v) else (k', v')) props
      else obj_insert props k v)"

fun obj_set_all ::
    "(jsstring \<times> jsval) list \<Rightarrow> (jsval \<times> jsval) list \<Rightarrow> (jsstring \<times> jsval) list option" where
  "obj_set_all props [] = Some props"
| "obj_set_all props ((k, v) # kvs) =
     (case ToString k of
        None \<Rightarrow> None
      | Some key \<Rightarrow> obj_set_all (obj_set props key v) kvs)"

definition set_add :: "jsval list \<Rightarrow> jsval \<Rightarrow> jsval list" where
  "set_add out v = (if v \<in> set out then out else out @ [v])"

definition map_set :: "(jsval \<times> jsval) list \<Rightarrow> jsval \<times> jsval \<Rightarrow> (jsval \<times> jsval) list" where
  "map_set out kv =
     (if map_of out (fst kv) \<noteq> None
      then map (\<lambda>(k', v'). if k' = fst kv then (k', snd kv) else (k', v')) out
      else out @ [kv])"

fun pairs :: "'a list \<Rightarrow> ('a \<times> 'a) list" where
  "pairs (k # v # rest) = (k, v) # pairs rest"
| "pairs _ = []"

definition alloc :: "obj \<Rightarrow> rstate \<Rightarrow> jsval \<times> rstate" where
  "alloc ob st = (VRef (length (r_heap st)), st\<lparr> r_heap := r_heap st @ [ob] \<rparr>)"

text \<open>\<open>readRefs.set(refCounter++, out); return out\<close> for a new object \<open>ob\<close>.\<close>

definition register_new :: "obj \<Rightarrow> rstate \<Rightarrow> jsval \<times> rstate" where
  "register_new ob st =
     (case alloc ob st of
        (out, st) \<Rightarrow>
          (out, st\<lparr> readRefs := (readRefs st)(r_refCounter st \<mapsto> out),
                     r_refCounter := r_refCounter st + 1 \<rparr>))"

definition readRefs_get :: "rstate \<Rightarrow> jsval \<Rightarrow> jsval" where
  "readRefs_get st ref =
     (case ref of
        VInt n \<Rightarrow> (if 0 \<le> n then (case readRefs st (nat n) of None \<Rightarrow> VUndefined | Some v \<Rightarrow> v)
                   else VUndefined)
      | _ \<Rightarrow> VUndefined)"

text \<open>
  \<open>new Date(time)\<close>: a time value beyond 8.64e15 milliseconds, NaN and \<open>undefined\<close> give an
  invalid date, whose time is NaN. Other arguments are not followed.
\<close>

definition Date_new :: "jsval \<Rightarrow> obj option" where
  "Date_new time =
     (case time of
        VInt n \<Rightarrow> Some (ODate (if \<bar>n\<bar> \<le> 8640000000000000 then VInt n else NaN))
      | VUndefined \<Rightarrow> Some (ODate NaN)
      | VFloat t \<Rightarrow> (if VFloat t = NaN then Some (ODate NaN) else None)
      | _ \<Rightarrow> None)"

text \<open>
  \<open>new RegExp(source, flags)\<close> on two strings, \<open>undefined\<close> standing for the empty one.
\<close>

definition RegExp_arg :: "jsval \<Rightarrow> jsstring option" where
  "RegExp_arg v = (case v of VStr s \<Rightarrow> Some s | VUndefined \<Rightarrow> Some [] | _ \<Rightarrow> None)"

definition RegExp_of :: "host \<Rightarrow> jsval \<Rightarrow> jsval \<Rightarrow> obj outcome" where
  "RegExp_of h source flags =
     (case (RegExp_arg source, RegExp_arg flags) of
        (Some s, Some f) \<Rightarrow>
          (case RegExp_new h s f of
             None \<Rightarrow> Throws SyntaxError
           | Some (s', f') \<Rightarrow> Returns (ORegExp s' f'))
      | _ \<Rightarrow> Unmodelled)"

text \<open>
  \<open>new ArrayBuffer(byteLength, options)\<close> with \<open>options\<close> set when \<open>maxByteLength\<close> is
  neither 0 nor identical to \<open>byteLength\<close>, followed by the decoding of the content. The
  limit of the host on the size of one allocation is not modelled.
\<close>

definition ArrayBuffer_new :: "jsval \<Rightarrow> jsval \<Rightarrow> (byte list \<times> jsval) outcome" where
  "ArrayBuffer_new byteLength maxByteLength =
     (let n = (case byteLength of VInt n \<Rightarrow> n | _ \<Rightarrow> 0)
      in if n > MAX_SAFE_INTEGER then Throws RangeError
         else if \<not> strict_eq maxByteLength (VInt 0) \<and> \<not> strict_eq maxByteLength byteLength
              then (case maxByteLength of
                      VUndefined \<Rightarrow> Returns (replicate (nat n) 0, VInt n)
                    | VInt m \<Rightarrow>
                        if m < n \<or> m > MAX_SAFE_INTEGER then Throws RangeError
                        else Returns (replicate (nat n) 0, VInt m)
                    | _ \<Rightarrow> Unmodelled)
              else Returns (replicate (nat n) 0, VInt n))"

definition arraybuffer_fill :: "jsval \<Rightarrow> jsval \<Rightarrow> byte list \<Rightarrow> byte list outcome" where
  "arraybuffer_fill is_dense s arrbuf =
     (if truthy is_dense
      then (case s of
              VStr t \<Rightarrow> denseArrayBufferFromStr t arrbuf
            | VRef a \<Rightarrow> Unmodelled
            | _ \<Rightarrow> Throws TypeError)
      else (case s of
              VStr t \<Rightarrow> sparseArrayBufferFromStr t arrbuf
            | _ \<Rightarrow> Throws TypeError))"

text \<open>
  \<open>new ctor(arrayBuffer, byteOffset, length)\<close> on a byte buffer with an offset and a
  length that are integers; what the constructors do with other arguments is not
  followed. \<open>None\<close> as the kind is \<open>DataView\<close>.
\<close>

definition view_new :: "heap \<Rightarrow> viewkind option \<Rightarrow> jsval \<Rightarrow> jsval \<Rightarrow> jsval \<Rightarrow> obj outcome" where
  "view_new hp kind arrayBuffer byteOffset len =
     (case (arrayBuffer, byteOffset, len) of
        (VRef a, VInt off, VInt n) \<Rightarrow>
          (case heap_get hp a of
             Some (OArrayBuffer bytes m) \<Rightarrow>
               (case kind of
                  Some k \<Rightarrow>
                    if off mod int (BYTES_PER_ELEMENT k) \<noteq> 0
                       \<or> off + n * int (BYTES_PER_ELEMENT k) > int (length bytes)
                    then Throws RangeError
                    else Returns (OTypedArray k a (nat off) (nat n))
                | None \<Rightarrow>
                    if off + n > int (length bytes) then Throws RangeError
                    else Returns (ODataView a (nat off) (nat n)))
           | _ \<Rightarrow> Unmodelled)
      | _ \<Rightarrow> Unmodelled)"

definition viewkind_of_I :: "nat \<Rightarrow> viewkind option" where
  "viewkind_of_I t =
     (if t = I_INT8ARRAY then Some Int8Array
      else if t = I_UINT8ARRAY then Some Uint8Array
      else if t = I_UINT8CLAMPEDARRAY then Some Uint8ClampedArray
      else if t = I_INT16ARRAY then Some Int16Array
      else if t = I_UINT16ARRAY then Some Uint16Array
      else if t = I_INT32ARRAY then Some Int32Array
      else if t = I_UINT32ARRAY then Some Uint32Array
      else if t = I_FLOAT32ARRAY then Some Float32Array
      else if t = I_FLOAT64ARRAY then Some Float64Array
      else None)"

text \<open>
  \<open>_deserialize\<close> in three parts. \<open>read_header\<close> is what a call does before it reads any
  child: it returns at the end of the input, reads the type tag and, by the tag, returns
  a primitive at once, or reads the sizes of a composite, or sets the fail mark.
  \<open>finish\<close> is what the call does with the children once they are read: it builds the
  object and, but for a pattern and a date, enters it in the reference table, after the
  children. The recursion itself, with a bound \<open>fuel\<close> on its depth, reads the children
  in order by \<open>deserialize_each\<close>, the loop \<open>while ( size-- )\<close>.
\<close>

datatype composite =
    KRegExp | KDate | KObject | KArray | KSet | KMap | KView "viewkind option" jsval jsval

datatype step =
    Leaf "(jsval \<times> rstate) outcome"
  | Kids composite nat rstate
  | Buffer jsval rstate

definition sized :: "bool \<Rightarrow> rstate \<Rightarrow> (jsval \<Rightarrow> rstate \<Rightarrow> step) \<Rightarrow> step" where
  "sized small st k =
     (case read_small_or_large small st of
        None \<Rightarrow> Leaf Diverges
      | Some (sz, st) \<Rightarrow> k sz st)"

definition text_leaf :: "(jsstring \<Rightarrow> jsval) \<Rightarrow> jsval \<Rightarrow> rstate \<Rightarrow> step" where
  "text_leaf f sz st =
     (case read_text sz st of
        None \<Rightarrow> Leaf Unmodelled
      | Some (s, st) \<Rightarrow> Leaf (Returns (f s, st)))"

definition read_header :: "host \<Rightarrow> rstate \<Rightarrow> step" where
  "read_header h st =
     (if readPtr st \<ge> readEnd st then Leaf (Returns (VUndefined, st))
      else case read_char st of (type, st) \<Rightarrow>
        (case type of
           VInt ti \<Rightarrow>
             let t = nat ti in
             if t = I_STRING_SMALL \<or> t = I_STRING_LARGE
               then sized (t = I_STRING_SMALL) st (text_leaf VStr)
             else if t = I_ZERO then Leaf (Returns (VInt 0, st))
             else if t = I_INTEGER_SMALL_POS then Leaf (Returns (read_char st))
             else if t = I_INTEGER_SMALL_NEG
               then (case read_char st of (v, st) \<Rightarrow> Leaf (Returns (js_neg v, st)))
             else if t = I_INTEGER_LARGE_POS
               then sized False st (\<lambda>v st. Leaf (Returns (v, st)))
             else if t = I_INTEGER_LARGE_NEG
               then sized False st (\<lambda>v st. Leaf (Returns (js_neg v, st)))
             else if t = I_BOOL_FALSE then Leaf (Returns (VBool False, st))
             else if t = I_BOOL_TRUE then Leaf (Returns (VBool True, st))
             else if t = I_NULL then Leaf (Returns (VNull, st))
             else if t = I_UNDEFINED then Leaf (Returns (VUndefined, st))
             else if t = I_FLOAT then sized False st (text_leaf (parseFloat h))
             else if t = I_REGEXP then Kids KRegExp 2 st
             else if t = I_DATE then Kids KDate 1 st
             else if t = I_REFERENCE
               then sized False st (\<lambda>ref st. Leaf (Returns (readRefs_get st ref, st)))
             else if t = I_SMALL_OBJECT \<or> t = I_LARGE_OBJECT
               then sized (t = I_SMALL_OBJECT) st (\<lambda>sz st. Kids KObject (2 * loop_count sz) st)
             else if t = I_ARRAY_SMALL \<or> t = I_ARRAY_LARGE
               then sized (t = I_ARRAY_SMALL) st (\<lambda>sz st. Kids KArray (loop_count sz) st)
             else if t = I_SET_SMALL \<or> t = I_SET_LARGE
               then sized (t = I_SET_SMALL) st (\<lambda>sz st. Kids KSet (loop_count sz) st)
             else if t = I_MAP_SMALL \<or> t = I_MAP_LARGE
               then sized (t = I_MAP_SMALL) st (\<lambda>sz st. Kids KMap (2 * loop_count sz) st)
             else if t = I_ARRAYBUFFER then sized False st Buffer
             else if viewkind_of_I t \<noteq> None \<or> t = I_DATAVIEW
               then sized False st (\<lambda>byteOffset st.
                      sized False st (\<lambda>len st. Kids (KView (viewkind_of_I t) byteOffset len) 1 st))
             else Leaf (Returns (VUndefined, st\<lparr> readPtr := FAILMARK \<rparr>))
         | _ \<Rightarrow> Leaf (Returns (VUndefined, st\<lparr> readPtr := FAILMARK \<rparr>))))"

definition finish :: "host \<Rightarrow> composite \<Rightarrow> jsval list \<Rightarrow> rstate \<Rightarrow> (jsval \<times> rstate) outcome" where
  "finish h k vs st =
     (case k of
        KRegExp \<Rightarrow> obind (RegExp_of h (vs ! 0) (vs ! 1)) (\<lambda>ob. Returns (alloc ob st))
      | KDate \<Rightarrow>
          (case Date_new (vs ! 0) of
             None \<Rightarrow> Unmodelled
           | Some ob \<Rightarrow> Returns (alloc ob st))
      | KObject \<Rightarrow>
          (case obj_set_all [] (pairs vs) of
             None \<Rightarrow> Unmodelled
           | Some props \<Rightarrow> Returns (register_new (OObject props) st))
      | KArray \<Rightarrow> Returns (register_new (OArray vs) st)
      | KSet \<Rightarrow> Returns (register_new (OSet (foldl set_add [] vs)) st)
      | KMap \<Rightarrow> Returns (register_new (OMap (foldl map_set [] (pairs vs))) st)
      | KView kind byteOffset len \<Rightarrow>
          obind (view_new (r_heap st) kind (vs ! 0) byteOffset len)
            (\<lambda>ob. Returns (register_new ob st)))"

definition finish_buffer ::
    "byte list \<Rightarrow> jsval \<Rightarrow> jsval list \<Rightarrow> rstate \<Rightarrow> (jsval \<times> rstate) outcome" where
  "finish_buffer arrbuf m vs st =
     obind (arraybuffer_fill (vs ! 0) (vs ! 1) arrbuf)
       (\<lambda>arrbuf. Returns (register_new (OArrayBuffer arrbuf m) st))"

fun deserialize_inner :: "nat \<Rightarrow> host \<Rightarrow> rstate \<Rightarrow> (jsval \<times> rstate) outcome"
and deserialize_each :: "nat \<Rightarrow> host \<Rightarrow> nat \<Rightarrow> rstate \<Rightarrow> (jsval list \<times> rstate) outcome"
where
  "deserialize_inner 0 h st = OutOfFuel"
| "deserialize_inner (Suc fuel) h st =
     (case read_header h st of
        Leaf r \<Rightarrow> r
      | Kids k n st \<Rightarrow>
          obind (deserialize_each fuel h n st) (\<lambda>(vs, st). finish h k vs st)
      | Buffer byteLength st \<Rightarrow>
          obind (deserialize_each fuel h 1 st) (\<lambda>(vs, st).
            obind (ArrayBuffer_new byteLength (vs ! 0)) (\<lambda>(arrbuf, m).
              obind (deserialize_each fuel h 2 st) (\<lambda>(vs, st).
                finish_buffer arrbuf m vs st))))"
| "deserialize_each fuel h 0 st = Returns ([], st)"
| "deserialize_each fuel h (Suc n) st =
     obind (deserialize_inner fuel h st) (\<lambda>(v, st).
       obind (deserialize_each fuel h n st) (\<lambda>(vs, st). Returns (v # vs, st)))"

text \<open>
  \<open>deserialize\<close>. For the compressed prefix the record \<open>{size, data}\<close> is read first;
  reading a property of \<open>undefined\<close> or \<open>null\<close> throws, and so does \<open>decode\<close> on anything
  but a \<open>Uint8Array\<close> or a byte buffer. A size that is not an integer or \<open>undefined\<close> is
  not followed.
\<close>

definition rstate_init :: "jsstring \<Rightarrow> nat \<Rightarrow> rstate" where
  "rstate_init s ptr =
     \<lparr> readStr = s, readPtr = int ptr, readEnd = int (length s), readRefs = Map.empty,
       r_refCounter = 1, r_heap = [] \<rparr>"

definition lz4_input :: "heap \<Rightarrow> jsval \<Rightarrow> byte list outcome" where
  "lz4_input hp input =
     (case input of
        VRef d \<Rightarrow>
          (case heap_get hp d of
             Some (OArrayBuffer bytes m) \<Rightarrow> Returns bytes
           | Some (OTypedArray Uint8Array buffer byteOffset len) \<Rightarrow>
               (case heap_get hp buffer of
                  Some (OArrayBuffer bytes m) \<Rightarrow> Returns (take len (drop byteOffset bytes))
                | _ \<Rightarrow> Unmodelled)
           | Some _ \<Rightarrow> Throws TypeError
           | None \<Rightarrow> Unmodelled)
      | _ \<Rightarrow> Throws TypeError)"

definition lz4_outputSize :: "jsval \<Rightarrow> nat outcome" where
  "lz4_outputSize sz =
     (case sz of
        VInt n \<Rightarrow>
          if n < 0 \<or> band (n + 0xFFFF) 0x7FFF0000 < n then Throws RangeError
          else Returns (nat n)
      | VUndefined \<Rightarrow> Returns 0
      | VFloat t \<Rightarrow> (if VFloat t = NaN then Returns 0 else Unmodelled)
      | _ \<Rightarrow> Unmodelled)"

definition lz4_decode :: "host \<Rightarrow> heap \<Rightarrow> jsval \<Rightarrow> jsstring outcome" where
  "lz4_decode h hp lz4 =
     (case lz4 of
        VRef a \<Rightarrow>
          (case heap_get hp a of
             Some (OObject props) \<Rightarrow>
               obind (lz4_input hp (getprop props (str ''data''))) (\<lambda>input.
                 obind (lz4_outputSize (getprop props (str ''size''))) (\<lambda>outputSize.
                   Returns (TextDecoder_decode h
                     (case decodeBlock input 0 outputSize of None \<Rightarrow> [] | Some oBuf \<Rightarrow> oBuf))))
           | Some _ \<Rightarrow> Throws TypeError
           | None \<Rightarrow> Unmodelled)
      | _ \<Rightarrow> Throws TypeError)"

definition deserialize :: "nat \<Rightarrow> host \<Rightarrow> jsstring \<Rightarrow> (jsval \<times> heap) outcome" where
  "deserialize fuel h s =
     obind (if startsWith s MAGICLZ4PREFIX
            then obind (deserialize_inner fuel h (rstate_init s (length MAGICLZ4PREFIX)))
                   (\<lambda>(lz4, st). lz4_decode h (r_heap st) lz4)
            else Returns s)
       (\<lambda>s. if startsWith s MAGICPREFIX = False then Returns (VUndefined, [])
            else obind (deserialize_inner fuel h (rstate_init s (length MAGICPREFIX)))
                   (\<lambda>(data, st). if readPtr st = FAILMARK then Returns (VUndefined, [])
                                  else Returns (data, r_heap st)))"


section \<open>A host for examples\<close>

text \<open>
  The examples below run on strings of ASCII characters and on values without
  non-integer numbers. On these the text encoder gives one byte for each character and
  the decoder one character for each byte; the estimate of the digit count is exact; a
  pattern is built from its source and flags as they are. The other two components are
  not called.
\<close>

function log88 :: "int \<Rightarrow> int" where
  "log88 v = (if v < 88 then 0 else 1 + log88 (v div 88))"
  by pat_completeness auto
termination
  by (relation "measure nat") auto

declare log88.simps [simp del]

definition ascii_host :: host where
  "ascii_host =
     \<lparr> float_ge = (\<lambda>t k. False),
       log88_floor = log88,
       parseFloat = VFloat,
       TextEncoder_encode = map of_nat,
       TextDecoder_decode = map unat,
       RegExp_new = (\<lambda>source flags. Some (source, flags)) \<rparr>"


section \<open>Facts about the alphabet\<close>

lemma NUMSAFECHARS_88 [code]: "NUMSAFECHARS = 88"
  by (simp add: NUMSAFECHARS_def SAFECHARS_def str_def)

lemma SEPARATORCHAR_code [code]: "SEPARATORCHAR = [32]"
  by (simp add: SEPARATORCHAR_def str_def)

lemma SEPARATORCHARCODE_32 [code]: "SEPARATORCHARCODE = 32"
  by (simp add: SEPARATORCHARCODE_def SEPARATORCHAR_def str_def)

lemma SAFECHARS_code [code]: "SAFECHARS = [38..<92] @ [93..<127]"
  by (simp add: SAFECHARS_def str_def upt_rec)

lemma charCodeToInt_table_upt:
  "charCodeToInt_table = replicate 38 0 @ [0..<54] @ [0] @ [54..<88] @ [0]"
  by code_simp

lemma MAGICPREFIX_code [code]: "MAGICPREFIX = [85, 79, 83, 67, 95, 49, 32]"
  by (simp add: MAGICPREFIX_def VERSION_def decimal.simps SEPARATORCHAR_def str_def)

lemma MAGICLZ4PREFIX_code [code]:
  "MAGICLZ4PREFIX = [85, 79, 83, 67, 47, 108, 122, 52, 95, 49, 32]"
  by (simp add: MAGICLZ4PREFIX_def VERSION_def decimal.simps SEPARATORCHAR_def str_def)

lemma SAFECHARS_nth: "r < 88 \<Longrightarrow> SAFECHARS ! r = (if r < 54 then r + 38 else r + 39)"
proof -
  have "\<forall>r \<in> set [0..<88]. SAFECHARS ! r = (if r < 54 then r + 38 else r + 39)"
    by code_simp
  then show "r < 88 \<Longrightarrow> ?thesis" by simp
qed

lemma charCodeToInt_table_nth:
  "c < 128 \<Longrightarrow> charCodeToInt_table ! c =
     (if 38 \<le> c \<and> c \<le> 91 then c - 38 else if 93 \<le> c \<and> c \<le> 126 then c - 39 else 0)"
proof -
  have "\<forall>c \<in> set [0..<128]. charCodeToInt_table ! c =
     (if 38 \<le> c \<and> c \<le> 91 then c - 38 else if 93 \<le> c \<and> c \<le> 126 then c - 39 else 0)"
    by code_simp
  then show "c < 128 \<Longrightarrow> ?thesis" by simp
qed

lemma charCodeToInt_table_length: "length charCodeToInt_table = 128"
  by code_simp

lemma separator_not_safe: "SEPARATORCHARCODE \<notin> set SAFECHARS"
  by code_simp

lemma intToChar_digit: "r < 88 \<Longrightarrow> intToChar r = [SAFECHARS ! r]"
  by (simp add: intToChar_def NUMSAFECHARS_88)

lemma safechar_props:
  assumes "r < 88"
  shows "SAFECHARS ! r \<noteq> SEPARATORCHARCODE"
    and "charCodeToInt (Some (SAFECHARS ! r)) = VInt (int r)"
  using assms
  by (auto simp: SAFECHARS_nth SEPARATORCHARCODE_32 charCodeToInt_def
      charCodeToInt_table_length charCodeToInt_table_nth)

lemma intToChar_code [code]:
  "intToChar i = (if i < 88 then [if i < 54 then i + 38 else i + 39]
                  else if i < 128 then [] else str ''undefined'')"
  by (simp add: intToChar_def NUMSAFECHARS_88 SAFECHARS_nth)

lemma intToCharCode_code [code]:
  "intToCharCode i = (if i < 88 then (if i < 54 then i + 38 else i + 39) else 0)"
  by (simp add: intToCharCode_def NUMSAFECHARS_88 SAFECHARS_nth)

lemma charCodeToInt_code [code]:
  "charCodeToInt c =
     (case c of
        None \<Rightarrow> VUndefined
      | Some k \<Rightarrow>
          if k < 128
          then VInt (if 38 \<le> k \<and> k \<le> 91 then int k - 38
                     else if 93 \<le> k \<and> k \<le> 126 then int k - 39 else 0)
          else VUndefined)"
  by (auto simp: charCodeToInt_def charCodeToInt_table_length charCodeToInt_table_nth
      split: option.splits)

section \<open>The numeral codec: encoding, decoding, termination\<close>

lemma serializeSize_loop_unfold:
  "serializeSize_loop i s =
     (if i < 88 then s @ [SAFECHARS ! i]
      else serializeSize_loop (i div 88) (s @ [SAFECHARS ! (i mod 88)]))"
proof (cases "i < 88")
  case True
  then show ?thesis
    by (subst serializeSize_loop.simps) (simp add: Let_def NUMSAFECHARS_88 intToChar_digit)
next
  case False
  have "i mod 88 < 88" by simp
  with False have a: "\<not> i \<le> i mod 88" by linarith
  have b: "(i - i mod 88) div 88 = i div 88"
    by (simp add: minus_mod_eq_mult_div)
  show ?thesis using False a
    by (subst serializeSize_loop.simps) (simp add: Let_def NUMSAFECHARS_88 b intToChar_digit)
qed

lemma serializeSize_loop_acc: "serializeSize_loop i s = s @ serializeSize_loop i []"
proof (induction i arbitrary: s rule: less_induct)
  case (less i)
  show ?case
  proof (cases "i < 88")
    case True
    then show ?thesis
      by (simp add: serializeSize_loop_unfold [of i s] serializeSize_loop_unfold [of i "[]"])
  next
    case False
    then have lt: "i div 88 < i" by simp
    show ?thesis
      using False less.IH [OF lt, of "s @ [SAFECHARS ! (i mod 88)]"]
        less.IH [OF lt, of "[SAFECHARS ! (i mod 88)]"]
      by (simp add: serializeSize_loop_unfold [of i s] serializeSize_loop_unfold [of i "[]"])
  qed
qed

lemma serializeSize_loop_step:
  "serializeSize_loop i [] =
     SAFECHARS ! (i mod 88) # (if i < 88 then [] else serializeSize_loop (i div 88) [])"
  using serializeSize_loop_acc [of "i div 88" "[SAFECHARS ! (i mod 88)]"]
  by (simp add: serializeSize_loop_unfold [of i "[]"])

lemma deserializeSize_loop_at_sep:
  "p < length s \<Longrightarrow> s ! p = SEPARATORCHARCODE \<Longrightarrow>
     deserializeSize_loop s p out m = Some (out, p + 1)"
  by (subst deserializeSize_loop.simps) (simp add: charCodeAt_def)

lemma deserializeSize_loop_at_digit:
  "p < length s \<Longrightarrow> s ! p \<noteq> SEPARATORCHARCODE \<Longrightarrow>
     deserializeSize_loop s p out m =
     deserializeSize_loop s (p + 1)
       (js_add out (js_mul (charCodeToInt (Some (s ! p))) (VInt (int m)))) (m * NUMSAFECHARS)"
  by (subst deserializeSize_loop.simps) (simp add: charCodeAt_def)

lemma deserializeSize_loop_Some_D:
  assumes "deserializeSize_loop s p out m = Some y"
  shows "p < snd y \<and> snd y \<le> length s \<and> s ! (snd y - 1) = SEPARATORCHARCODE
         \<and> (\<forall>k. p \<le> k \<and> k < snd y - 1 \<longrightarrow> s ! k \<noteq> SEPARATORCHARCODE)"
proof (rule deserializeSize_loop.raw_induct
    [where P = "\<lambda>s p out m y. p < snd y \<and> snd y \<le> length s \<and> s ! (snd y - 1) = SEPARATORCHARCODE
         \<and> (\<forall>k. p \<le> k \<and> k < snd y - 1 \<longrightarrow> s ! k \<noteq> SEPARATORCHARCODE)", OF _ assms])
  fix loop :: "jsstring \<Rightarrow> nat \<Rightarrow> jsval \<Rightarrow> nat \<Rightarrow> (jsval \<times> nat) option"
  fix s p out m y
  assume IH: "\<And>s p out m y. loop s p out m = Some y \<Longrightarrow>
     p < snd y \<and> snd y \<le> length s \<and> s ! (snd y - 1) = SEPARATORCHARCODE
         \<and> (\<forall>k. p \<le> k \<and> k < snd y - 1 \<longrightarrow> s ! k \<noteq> SEPARATORCHARCODE)"
  assume body: "(let c = charCodeAt s p; readPtr = p + 1
      in if c \<noteq> Some SEPARATORCHARCODE
         then loop s readPtr (js_add out (js_mul (charCodeToInt c) (VInt (int m)))) (m * NUMSAFECHARS)
         else Some (out, readPtr)) = Some y"
  show "p < snd y \<and> snd y \<le> length s \<and> s ! (snd y - 1) = SEPARATORCHARCODE
         \<and> (\<forall>k. p \<le> k \<and> k < snd y - 1 \<longrightarrow> s ! k \<noteq> SEPARATORCHARCODE)"
  proof (cases "charCodeAt s p = Some SEPARATORCHARCODE")
    case True
    with body have y: "y = (out, p + 1)" by (simp add: Let_def)
    from True have "p < length s" "s ! p = SEPARATORCHARCODE"
      by (auto simp: charCodeAt_def split: if_splits)
    with y show ?thesis by simp
  next
    case False
    with body have
      "loop s (p + 1) (js_add out (js_mul (charCodeToInt (charCodeAt s p)) (VInt (int m))))
         (m * NUMSAFECHARS) = Some y"
      by (simp add: Let_def)
    from IH [OF this] have ih: "p + 1 < snd y" "snd y \<le> length s"
      "s ! (snd y - 1) = SEPARATORCHARCODE"
      "\<forall>k. p + 1 \<le> k \<and> k < snd y - 1 \<longrightarrow> s ! k \<noteq> SEPARATORCHARCODE"
      by auto
    from ih(1,2) have "p < length s" by simp
    with False have ne: "s ! p \<noteq> SEPARATORCHARCODE" by (simp add: charCodeAt_def)
    have "\<forall>k. p \<le> k \<and> k < snd y - 1 \<longrightarrow> s ! k \<noteq> SEPARATORCHARCODE"
    proof (intro allI impI)
      fix k assume k: "p \<le> k \<and> k < snd y - 1"
      show "s ! k \<noteq> SEPARATORCHARCODE"
      proof (cases "k = p")
        case True with ne show ?thesis by simp
      next
        case False
        with k have "p + 1 \<le> k \<and> k < snd y - 1" by simp
        with ih(4) show ?thesis by blast
      qed
    qed
    with ih show ?thesis by simp
  qed
qed

lemma deserializeSize_loop_terminates:
  assumes "j < length s" "s ! j = SEPARATORCHARCODE" "p \<le> j"
    and "\<forall>k. p \<le> k \<and> k < j \<longrightarrow> s ! k \<noteq> SEPARATORCHARCODE"
  shows "\<exists>r. deserializeSize_loop s p out m = Some (r, j + 1)"
  using assms
proof (induction "j - p" arbitrary: p out m)
  case 0
  then have "p = j" by simp
  with 0 show ?case by (simp add: deserializeSize_loop_at_sep)
next
  case (Suc d)
  then have lt: "p < j" by simp
  with Suc.prems have ne: "s ! p \<noteq> SEPARATORCHARCODE" and pl: "p < length s" by auto
  have "d = j - (p + 1)" using Suc.hyps(2) by simp
  from Suc.hyps(1) [OF this Suc.prems(1,2)] lt Suc.prems(4)
  have "\<exists>r. deserializeSize_loop s (p + 1)
        (js_add out (js_mul (charCodeToInt (Some (s ! p))) (VInt (int m)))) (m * NUMSAFECHARS)
        = Some (r, j + 1)"
    by simp
  then show ?case by (simp add: deserializeSize_loop_at_digit [OF pl ne])
qed

lemma deserializeSize_loop_digits:
  "deserializeSize_loop (pre @ serializeSize_loop i [] @ SEPARATORCHARCODE # post)
       (length pre) (VInt a) m =
     Some (VInt (a + int i * int m), length pre + length (serializeSize_loop i []) + 1)"
proof (induction i arbitrary: pre a m rule: less_induct)
  case (less i)
  let ?c = "SAFECHARS ! (i mod 88)"
  let ?rest = "(if i < 88 then [] else serializeSize_loop (i div 88) [])"
  let ?s = "pre @ serializeSize_loop i [] @ SEPARATORCHARCODE # post"
  have r: "i mod 88 < 88" by simp
  have s_eq: "?s = (pre @ [?c]) @ ?rest @ SEPARATORCHARCODE # post"
    by (subst serializeSize_loop_step) simp
  have len: "length pre < length ?s" by (subst serializeSize_loop_step) simp
  have at: "?s ! length pre = ?c" by (subst serializeSize_loop_step) (simp add: nth_append)
  have step: "deserializeSize_loop ?s (length pre) (VInt a) m =
     deserializeSize_loop ?s (length pre + 1) (VInt (a + int (i mod 88) * int m)) (m * 88)"
    using deserializeSize_loop_at_digit [OF len, of "VInt a" m] safechar_props [OF r]
    by (simp add: at NUMSAFECHARS_88)
  show ?case
  proof (cases "i < 88")
    case True
    have "?s ! (length pre + 1) = SEPARATORCHARCODE" "length pre + 1 < length ?s"
      using True by (simp_all add: serializeSize_loop_step [of i] nth_append)
    from deserializeSize_loop_at_sep [OF this(2,1)]
    have "deserializeSize_loop ?s (length pre + 1) (VInt (a + int (i mod 88) * int m)) (m * 88)
        = Some (VInt (a + int (i mod 88) * int m), length pre + 1 + 1)" .
    with step have "deserializeSize_loop ?s (length pre) (VInt a) m
        = Some (VInt (a + int (i mod 88) * int m), length pre + 1 + 1)" by simp
    moreover have "length (serializeSize_loop i []) = 1" "i mod 88 = i"
      using True by (simp_all add: serializeSize_loop_step [of i])
    ultimately show ?thesis by simp
  next
    case False
    then have lt: "i div 88 < i" by simp
    have "deserializeSize_loop ((pre @ [?c]) @ serializeSize_loop (i div 88) [] @ SEPARATORCHARCODE # post)
       (length (pre @ [?c])) (VInt (a + int (i mod 88) * int m)) (m * 88) =
     Some (VInt ((a + int (i mod 88) * int m) + int (i div 88) * int (m * 88)),
        length (pre @ [?c]) + length (serializeSize_loop (i div 88) []) + 1)"
      by (rule less.IH [OF lt])
    moreover have "(a + int (i mod 88) * int m) + int (i div 88) * int (m * 88) = a + int i * int m"
    proof -
      have "int i = int (i div 88) * 88 + int (i mod 88)"
        by (metis div_mult_mod_eq of_nat_add of_nat_mult of_nat_numeral)
      then show ?thesis by (simp add: algebra_simps)
    qed
    moreover have "length (serializeSize_loop i []) = 1 + length (serializeSize_loop (i div 88) [])"
      using False by (subst serializeSize_loop_step) simp
    ultimately have "deserializeSize_loop ((pre @ [?c]) @ serializeSize_loop (i div 88) [] @ SEPARATORCHARCODE # post)
       (length pre + 1) (VInt (a + int (i mod 88) * int m)) (m * 88) =
       Some (VInt (a + int i * int m), length pre + length (serializeSize_loop i []) + 1)"
      by simp
    moreover have "?s = (pre @ [?c]) @ serializeSize_loop (i div 88) [] @ SEPARATORCHARCODE # post"
      using s_eq False by simp
    ultimately show ?thesis using step by simp
  qed
qed

lemma serializeSize_loop_digits:
  "\<exists>d. 1 \<le> d \<and> n < 88 ^ d \<and> (d = 1 \<or> 88 ^ (d - 1) \<le> n) \<and>
     serializeSize_loop n [] = map (\<lambda>k. SAFECHARS ! (n div 88 ^ k mod 88)) [0..<d]"
proof (induction n rule: less_induct)
  case (less n)
  show ?case
  proof (cases "n < 88")
    case True
    then have "serializeSize_loop n [] = map (\<lambda>k. SAFECHARS ! (n div 88 ^ k mod 88)) [0..<1]"
      by (subst serializeSize_loop_step) simp
    with True show ?thesis by (intro exI [of _ 1]) simp
  next
    case False
    then have "n div 88 < n" by simp
    from less.IH [OF this] obtain d where d: "1 \<le> d" "n div 88 < 88 ^ d"
      "d = 1 \<or> 88 ^ (d - 1) \<le> n div 88"
      "serializeSize_loop (n div 88) [] = map (\<lambda>k. SAFECHARS ! (n div 88 div 88 ^ k mod 88)) [0..<d]"
      by blast
    have shift: "map (\<lambda>k. SAFECHARS ! (n div 88 ^ k mod 88)) [0..<Suc d] =
        SAFECHARS ! (n mod 88) # map (\<lambda>k. SAFECHARS ! (n div 88 div 88 ^ k mod 88)) [0..<d]"
      by (simp add: upt_rec [of 0 "Suc d"] map_Suc_upt [symmetric] div_mult2_eq del: upt_Suc)
    have a: "serializeSize_loop n [] = map (\<lambda>k. SAFECHARS ! (n div 88 ^ k mod 88)) [0..<Suc d]"
      using False d(4) by (subst serializeSize_loop_step) (simp only: shift if_False)
    have b: "n < 88 ^ Suc d"
      using d(2) by (simp add: div_less_iff_less_mult mult.commute)
    have c: "88 ^ (Suc d - 1) \<le> n"
    proof (cases "d = 1")
      case True with False show ?thesis by simp
    next
      case False
      with d(3) have "88 ^ (d - 1) \<le> n div 88" by simp
      then have "88 ^ (d - 1) * 88 \<le> n" by (simp add: less_eq_div_iff_mult_less_eq)
      moreover have "(88::nat) ^ (d - 1) * 88 = 88 ^ d"
        using d(1) by (metis Suc_diff_1 less_eq_Suc_le power_Suc2 One_nat_def)
      ultimately show ?thesis by simp
    qed
    from a b c show ?thesis by (intro exI [of _ "Suc d"]) simp
  qed
qed

lemma deserializeSize_serializeSize:
  "deserializeSize (pre @ serializeSize n @ post) (length pre) =
     Some (VInt (int n), length pre + length (serializeSize n))"
proof -
  let ?c = "SAFECHARS ! (n mod 88)"
  let ?rest = "(if n < 88 then [] else serializeSize_loop (n div 88) [])"
  let ?s = "pre @ serializeSize n @ post"
  have r: "n mod 88 < 88" by simp
  have s_eq: "?s = (pre @ [?c]) @ ?rest @ SEPARATORCHARCODE # post"
    unfolding serializeSize_def by (subst serializeSize_loop_step) (simp add: SEPARATORCHARCODE_32 SEPARATORCHAR_code)
  have len: "length (serializeSize n) = 1 + length ?rest + 1"
    unfolding serializeSize_def by (subst serializeSize_loop_step) (simp add: SEPARATORCHARCODE_32 SEPARATORCHAR_code)
  have first: "charCodeAt ?s (length pre) = Some ?c"
    unfolding s_eq by (simp add: charCodeAt_def nth_append)
  have start: "deserializeSize ?s (length pre) =
      deserializeSize_loop ?s (length pre + 1) (VInt (int (n mod 88))) 88"
    by (simp add: deserializeSize_def Let_def first safechar_props [OF r] NUMSAFECHARS_88)
  show ?thesis
  proof (cases "n < 88")
    case True
    have "length pre + 1 < length ?s" "?s ! (length pre + 1) = SEPARATORCHARCODE"
      unfolding s_eq using True by (simp_all add: nth_append)
    from deserializeSize_loop_at_sep [OF this] True show ?thesis
      by (simp add: start len)
  next
    case False
    have "deserializeSize_loop ((pre @ [?c]) @ serializeSize_loop (n div 88) [] @ SEPARATORCHARCODE # post)
        (length (pre @ [?c])) (VInt (int (n mod 88))) 88 =
       Some (VInt (int (n mod 88) + int (n div 88) * int 88),
             length (pre @ [?c]) + length (serializeSize_loop (n div 88) []) + 1)"
      by (rule deserializeSize_loop_digits)
    moreover have "int (n mod 88) + int (n div 88) * int 88 = int n"
      by (metis add.commute div_mult_mod_eq of_nat_add of_nat_mult)
    ultimately have "deserializeSize_loop ?s (length pre + 1) (VInt (int (n mod 88))) 88 =
       Some (VInt (int n), length pre + length (serializeSize n))"
      unfolding s_eq len using False by simp
    with start show ?thesis by simp
  qed
qed

lemma deserializeSize_loop_None:
  assumes "\<not> (\<exists>j. p \<le> j \<and> j < length s \<and> s ! j = SEPARATORCHARCODE)"
  shows "deserializeSize_loop s p out m = None"
proof (cases "deserializeSize_loop s p out m")
  case None
  then show ?thesis .
next
  case (Some y)
  from deserializeSize_loop_Some_D [OF Some]
  have "p \<le> snd y - 1 \<and> snd y - 1 < length s \<and> s ! (snd y - 1) = SEPARATORCHARCODE"
    by auto
  with assms show ?thesis by blast
qed

lemma deserializeSize_as_loop:
  "deserializeSize s p =
     deserializeSize_loop s (p + 1) (charCodeToInt (charCodeAt s p)) NUMSAFECHARS"
  by (simp add: deserializeSize_def Let_def)

text \<open>
  Claim C8. For every non-negative integer \<open>n\<close> that the host represents exactly (up to
  \<open>Number.MAX_SAFE_INTEGER\<close>, which covers every size up to \<open>2^32 - 1\<close>),
  \<open>serializeSize n\<close> is the base-88 digits of \<open>n\<close>, least significant first and at least
  one of them, each a safe character, followed by one separator, which is not a safe
  character; and \<open>deserializeSize\<close> started at the first character of that encoding,
  wherever it stands in the string that is read, returns \<open>n\<close> and leaves the cursor just
  past the separator.
\<close>

theorem serializeSize_deserializeSize_roundtrip:
  assumes "int n \<le> MAX_SAFE_INTEGER"
  shows "(\<exists>d. 1 \<le> d \<and> n < NUMSAFECHARS ^ d \<and> (d = 1 \<or> NUMSAFECHARS ^ (d - 1) \<le> n) \<and>
            serializeSize n =
              map (\<lambda>k. SAFECHARS ! (n div NUMSAFECHARS ^ k mod NUMSAFECHARS)) [0..<d]
              @ SEPARATORCHAR)
         \<and> SEPARATORCHARCODE \<notin> set SAFECHARS
         \<and> deserializeSize (pre @ serializeSize n @ post) (length pre) =
             Some (VInt (int n), length pre + length (serializeSize n))"
proof -
  from serializeSize_loop_digits [of n]
  have "\<exists>d. 1 \<le> d \<and> n < NUMSAFECHARS ^ d \<and> (d = 1 \<or> NUMSAFECHARS ^ (d - 1) \<le> n) \<and>
            serializeSize n =
              map (\<lambda>k. SAFECHARS ! (n div NUMSAFECHARS ^ k mod NUMSAFECHARS)) [0..<d]
              @ SEPARATORCHAR"
    by (simp add: serializeSize_def NUMSAFECHARS_88)
  then show ?thesis
    using separator_not_safe deserializeSize_serializeSize [of pre n post] by blast
qed

theorem serializeSize_deserializeSize_roundtrip_witness:
  "int 1000 \<le> MAX_SAFE_INTEGER
   \<and> serializeSize 1000 = str ''F1 ''
   \<and> deserializeSize (str ''+'' @ str ''F1 '' @ str ''x'') 1 = Some (VInt 1000, 4)"
proof -
  have h: "int 1000 \<le> MAX_SAFE_INTEGER" by (simp add: MAX_SAFE_INTEGER_def)
  have e: "serializeSize 1000 = str ''F1 ''" by code_simp
  from serializeSize_deserializeSize_roundtrip [OF h, of "str ''+''" "str ''x''"]
  have "deserializeSize (str ''+'' @ serializeSize 1000 @ str ''x'') (length (str ''+'')) =
      Some (VInt (int 1000), length (str ''+'') + length (serializeSize 1000))"
    by blast
  then have "deserializeSize (str ''+'' @ str ''F1 '' @ str ''x'') 1 = Some (VInt 1000, 4)"
    by (simp add: e str_def)
  with h e show ?thesis by blast
qed

text \<open>
  Claim C10, as the code has it. \<open>deserializeSize\<close> takes the character at the cursor as a
  digit without looking whether it is the separator, so a separator at the cursor itself
  does not end the numeral. The function returns exactly when the separator occurs in the
  string strictly after the cursor position; it then leaves the cursor one position past
  the first such separator. When no separator occurs strictly after the cursor position,
  the loop never exits: the partial function has no value.
\<close>

theorem deserializeSize_returns_iff_separator_after_cursor:
  "(case deserializeSize s p of
      None \<Rightarrow> \<not> (\<exists>j. p < j \<and> j < length s \<and> s ! j = SEPARATORCHARCODE)
    | Some (out, q) \<Rightarrow>
        p + 1 < q \<and> q \<le> length s \<and> s ! (q - 1) = SEPARATORCHARCODE \<and>
        (\<forall>k. p < k \<and> k < q - 1 \<longrightarrow> s ! k \<noteq> SEPARATORCHARCODE))"
proof (cases "deserializeSize s p")
  case None
  have "\<not> (\<exists>j. p < j \<and> j < length s \<and> s ! j = SEPARATORCHARCODE)"
  proof
    assume "\<exists>j. p < j \<and> j < length s \<and> s ! j = SEPARATORCHARCODE"
    then obtain j where j: "p < j \<and> j < length s \<and> s ! j = SEPARATORCHARCODE" ..
    define j0 where "j0 = (LEAST j. p < j \<and> j < length s \<and> s ! j = SEPARATORCHARCODE)"
    have j0: "p < j0 \<and> j0 < length s \<and> s ! j0 = SEPARATORCHARCODE"
      unfolding j0_def using j by (rule LeastI)
    have least: "\<forall>k. p + 1 \<le> k \<and> k < j0 \<longrightarrow> s ! k \<noteq> SEPARATORCHARCODE"
    proof (intro allI impI notI)
      fix k assume k: "p + 1 \<le> k \<and> k < j0" and "s ! k = SEPARATORCHARCODE"
      with j0 have "p < k \<and> k < length s \<and> s ! k = SEPARATORCHARCODE" by simp
      then have "j0 \<le> k" unfolding j0_def by (rule Least_le)
      with k show False by simp
    qed
    from j0 have "p + 1 \<le> j0" by simp
    from deserializeSize_loop_terminates [OF _ _ this least, of "charCodeToInt (charCodeAt s p)" NUMSAFECHARS] j0
    have "\<exists>r. deserializeSize s p = Some (r, j0 + 1)"
      by (simp add: deserializeSize_as_loop)
    with None show False by simp
  qed
  with None show ?thesis by simp
next
  case (Some y)
  obtain out q where y: "y = (out, q)" by (cases y)
  from Some have "deserializeSize_loop s (p + 1) (charCodeToInt (charCodeAt s p)) NUMSAFECHARS = Some y"
    by (simp add: deserializeSize_as_loop)
  from deserializeSize_loop_Some_D [OF this] y
  have "p + 1 < q \<and> q \<le> length s \<and> s ! (q - 1) = SEPARATORCHARCODE \<and>
        (\<forall>k. p + 1 \<le> k \<and> k < q - 1 \<longrightarrow> s ! k \<noteq> SEPARATORCHARCODE)"
    by simp
  then have "p + 1 < q \<and> q \<le> length s \<and> s ! (q - 1) = SEPARATORCHARCODE \<and>
        (\<forall>k. p < k \<and> k < q - 1 \<longrightarrow> s ! k \<noteq> SEPARATORCHARCODE)"
    by (simp add: Suc_le_eq)
  with Some y show ?thesis by simp
qed

theorem deserializeSize_returns_iff_separator_after_cursor_witness:
  "deserializeSize (str ''ab'') 0 = None
   \<and> (\<exists>out. deserializeSize (str ''ab cd'') 0 = Some (out, 3))"
proof -
  have a: "deserializeSize (str ''ab'') 0 = None"
  proof (cases "deserializeSize (str ''ab'') 0")
    case None
    then show ?thesis .
  next
    case (Some y)
    obtain out q where y: "y = (out, q)" by (cases y)
    from deserializeSize_returns_iff_separator_after_cursor [where s = "str ''ab''" and p = 0]
      Some y
    have q: "1 < q" "q \<le> 2" "str ''ab'' ! (q - 1) = SEPARATORCHARCODE"
      by (simp_all add: str_def)
    from q(1,2) have "q = 2" by arith
    with q(3) show ?thesis by (simp add: str_def SEPARATORCHARCODE_32)
  qed
  have sep: "\<exists>j. 0 < j \<and> j < length (str ''ab cd'') \<and> str ''ab cd'' ! j = SEPARATORCHARCODE"
    by (intro exI [of _ 2]) (simp add: str_def SEPARATORCHARCODE_32)
  have b: "\<exists>out. deserializeSize (str ''ab cd'') 0 = Some (out, 3)"
  proof (cases "deserializeSize (str ''ab cd'') 0")
    case None
    with deserializeSize_returns_iff_separator_after_cursor [where s = "str ''ab cd''" and p = 0] sep
    show ?thesis by simp
  next
    case (Some y)
    obtain out q where y: "y = (out, q)" by (cases y)
    from deserializeSize_returns_iff_separator_after_cursor [where s = "str ''ab cd''" and p = 0] Some y
    have q: "1 < q" "q \<le> 5" "str ''ab cd'' ! (q - 1) = SEPARATORCHARCODE"
      "\<forall>k. 0 < k \<and> k < q - 1 \<longrightarrow> str ''ab cd'' ! k \<noteq> SEPARATORCHARCODE"
      by (simp_all add: str_def)
    have "q = 3"
    proof (rule ccontr)
      assume "q \<noteq> 3"
      with q(1,2) have "q = 2 \<or> q = 4 \<or> q = 5" by arith
      then show False
      proof (elim disjE)
        assume "q = 2" with q(3) show False by (simp add: str_def SEPARATORCHARCODE_32)
      next
        assume "q = 4"
        with q(4) have "str ''ab cd'' ! 2 \<noteq> SEPARATORCHARCODE" by simp
        then show False by (simp add: str_def SEPARATORCHARCODE_32)
      next
        assume "q = 5"
        with q(4) have "str ''ab cd'' ! 2 \<noteq> SEPARATORCHARCODE" by simp
        then show False by (simp add: str_def SEPARATORCHARCODE_32)
      qed
    qed
    with Some y show ?thesis by simp
  qed
  from a b show ?thesis ..
qed

text \<open>
  The claim as it was stated lets the separator stand at the cursor position. On the
  one-character string that is a separator, read from position 0, the separator occurs at
  the cursor position and \<open>deserializeSize\<close> does not return.
\<close>

theorem deserializeSize_separator_at_cursor_counterexample:
  "0 < length (str '' '') \<and> str '' '' ! 0 = SEPARATORCHARCODE
   \<and> deserializeSize (str '' '') 0 = None"
proof -
  have "\<not> (\<exists>j. 0 + 1 \<le> j \<and> j < length (str '' '') \<and> str '' '' ! j = SEPARATORCHARCODE)"
    by (simp add: str_def)
  then have "deserializeSize (str '' '') 0 = None"
    unfolding deserializeSize_as_loop by (rule deserializeSize_loop_None)
  then show ?thesis by (simp add: str_def SEPARATORCHARCODE_32)
qed

section \<open>Recognising a serialized string\<close>

lemma startsWith_iff: "startsWith s p = (\<exists>r. s = p @ r)"
  unfolding startsWith_def
  by (metis append_eq_conv_conj append_take_drop_id)

lemma MAGICPREFIX_str: "MAGICPREFIX = str ''UOSC_1 ''"
  by (simp add: MAGICPREFIX_code str_def)

lemma MAGICLZ4PREFIX_str: "MAGICLZ4PREFIX = str ''UOSC/lz4_1 ''"
  by (simp add: MAGICLZ4PREFIX_code str_def)

lemma magic_prefixes_exclusive:
  "\<not> (startsWith s MAGICPREFIX \<and> startsWith s MAGICLZ4PREFIX)"
  by (auto simp: startsWith_iff MAGICPREFIX_code MAGICLZ4PREFIX_code)

text \<open>
  Claim C9. For every string \<open>s\<close>, the empty string and the truncated prefixes among
  them, \<open>canDeserialize\<close> is true if and only if \<open>s\<close> begins with exactly one of the two
  magic prefixes, the plain one \<open>UOSC_1\<close> and the compressed one \<open>UOSC/lz4_1\<close>, each
  followed by the separator. It decodes nothing: its answer is the same on the first
  eleven characters of \<open>s\<close>, the length of the longer prefix, as on \<open>s\<close>.
\<close>

theorem canDeserialize_iff_exactly_one_magic_prefix:
  "canDeserialize (VStr s) =
     ((\<exists>r. s = str ''UOSC_1 '' @ r) \<noteq> (\<exists>r. s = str ''UOSC/lz4_1 '' @ r))
   \<and> canDeserialize (VStr s) = canDeserialize (VStr (take 11 s))"
proof -
  have a: "canDeserialize (VStr s) =
     ((\<exists>r. s = str ''UOSC_1 '' @ r) \<or> (\<exists>r. s = str ''UOSC/lz4_1 '' @ r))"
    by (auto simp: canDeserialize_def startsWith_iff MAGICPREFIX_str MAGICLZ4PREFIX_str)
  have b: "\<not> ((\<exists>r. s = str ''UOSC_1 '' @ r) \<and> (\<exists>r. s = str ''UOSC/lz4_1 '' @ r))"
    by (auto simp: str_def)
  have c: "canDeserialize (VStr s) = canDeserialize (VStr (take 11 s))"
    by (simp add: canDeserialize_def startsWith_def MAGICPREFIX_code MAGICLZ4PREFIX_code min_def)
  from a b c show ?thesis by blast
qed

section \<open>Configuration\<close>

lemma decimal_hd: "decimal n \<noteq> [] \<and> hd (decimal n) \<in> {48..57}"
proof (induction n rule: decimal.induct)
  case (1 n)
  show ?case
  proof (cases "n < 10")
    case True
    then show ?thesis by (subst (1 2) decimal.simps) simp
  next
    case False
    with 1 show ?thesis by (subst (1 2) decimal.simps) simp
  qed
qed

lemma setConfig_body_index: "setConfig_body h config (decimal n) cur = cur"
proof -
  have "decimal n \<noteq> str ''maxThreadCount''" "decimal n \<noteq> str ''threadTTL''"
    using decimal_hd [of n] by (auto simp: str_def)
  then show ?thesis
    by (simp add: setConfig_body_def hasOwnProperty_def defaultConfig_def)
qed

text \<open>
  The keys that \<open>setConfig\<close> enumerates are array indices, never the name of an option,
  so no call changes the configuration.
\<close>

lemma setConfig_changes_nothing: "getConfig (setConfig h config cur) = getConfig cur"
proof -
  have "fold (setConfig_body h config) (map decimal ns) cur = cur" for ns
    by (induction ns) (simp_all add: setConfig_body_index)
  then show ?thesis by (simp add: setConfig_def for_in_array_def getConfig_def)
qed

text \<open>
  Claim C3 says that \<open>setConfig\<close> applied to a partial configuration updates each
  recognized key whose value has the right type and passes validation. The code
  enumerates \<open>for (const key in Object.keys(config))\<close>, the indices of the key array, where
  the keys themselves were meant. At \<open>setConfig({maxThreadCount: 4})\<close> on the default
  configuration, whose value 4 is a number and at least 1, \<open>getConfig\<close> still reports 2.
\<close>

theorem setConfig_maxThreadCount_not_updated:
  "getprop (getConfig (setConfig h [(str ''maxThreadCount'', VInt 4)] defaultConfig))
     (str ''maxThreadCount'') = VInt 2
   \<and> typeof (VInt 4) = typeof (getprop defaultConfig (str ''maxThreadCount''))
   \<and> validateConfig h (str ''maxThreadCount'') (VInt 4)"
  by (simp add: setConfig_def for_in_array_def Object_keys_def decimal.simps setConfig_body_def
      hasOwnProperty_def defaultConfig_def getConfig_def getprop_def validateConfig_def str_def)

section \<open>The byte-buffer sub-codec on a buffer with a non-zero tail\<close>

text \<open>
  The trimming of \<open>analyzeArrayBuffer\<close> looks at whole 32-bit words only. When the last
  whole word is zero, the content length becomes four times \<open>notzeroCount\<close>, and the one
  to three bytes after the last whole word are cut off with it, whatever they hold. Both
  encodings then write the trimmed content only, and both decoders leave the rest zero.
\<close>

lemma analyzeArrayBuffer_drops_tail:
  "contentByteLength (analyzeArrayBuffer h [1, 0, 0, 0, 0, 0, 0, 0, 5]) = 4"
  by code_simp

lemma dense_path_loses_tail:
  "denseArrayBufferFromStr (denseArrayBufferToStr [1, 0, 0, 0, 0, 0, 0, 0, 5] 4) (replicate 9 0)
     = Returns [1, 0, 0, 0, 0, 0, 0, 0, 0]"
  by code_simp

lemma sparse_path_loses_tail:
  "sparseArrayBufferFromStr (sparseArrayBufferToStr [1, 0, 0, 0, 0, 0, 0, 0, 5] 4) (replicate 9 0)
     = Returns [1, 0, 0, 0, 0, 0, 0, 0, 0]"
  by code_simp

text \<open>
  Claim C4 says that the byte-buffer sub-codec reproduces the exact original bytes of
  every buffer of length 0 to 1000, and that the one to three bytes that do not form a
  whole word are preserved by the trimming. On the five-byte buffer 0, 0, 0, 0, 5 the
  only whole word is zero, so the content length is 0: the text written is the numeral 0
  alone, in the sparse form, and the buffer rebuilt from it is five zero bytes. The byte
  5 is lost.
\<close>

theorem arraybuffer_tail_byte_lost:
  "arraybuffer_to_str h [0, 0, 0, 0, 5] = (False, serializeSize 0)
   \<and> arraybuffer_from_str 5 False (serializeSize 0) = Returns [0, 0, 0, 0, 0]"
proof -
  have "arraybuffer_to_str h [0, 0, 0, 0, 5] = (False, serializeSize 0)"
    by code_simp
  moreover have "arraybuffer_from_str 5 False (serializeSize 0) = Returns [0, 0, 0, 0, 0]"
    by code_simp
  ultimately show ?thesis ..
qed

section \<open>The block codec on the empty input\<close>

text \<open>
  Claim C6 says that decoding the block encoding of \<open>b\<close> reproduces \<open>b\<close> for every byte
  sequence of length 0 to 10000. The encoder turns the empty input into the single token
  byte 0, a last sequence of no literals. The decoder tests for the end of its input only
  after a literal run that is not empty; here it goes on to read a match offset past the
  end of the input, finds it zero and returns nothing.
\<close>

theorem lz4_empty_input_not_decoded:
  "encodeBlock [] 0 = Returns [0] \<and> decodeBlock [0] 0 0 = None"
proof -
  have "encodeBlock [] 0 = Returns [0]" by code_simp
  moreover have "decodeBlock [0] 0 0 = None" by code_simp
  ultimately show ?thesis ..
qed

text \<open>An input that is not empty, with a long match in it, for comparison.\<close>

lemma lz4_roundtrip_example:
  "encodeBlock (map of_nat (str ''abcabcabcabcabcabcabcabcabcabcabcabc'')) 0
     = Returns [63, 97, 98, 99, 3, 0, 9, 80, 98, 99, 97, 98, 99]
   \<and> decodeBlock [63, 97, 98, 99, 3, 0, 9, 80, 98, 99, 97, 98, 99] 0 36
     = Some (map of_nat (str ''abcabcabcabcabcabcabcabcabcabcabcabc''))"
proof -
  have "encodeBlock (map of_nat (str ''abcabcabcabcabcabcabcabcabcabcabcabc'')) 0
     = Returns [63, 97, 98, 99, 3, 0, 9, 80, 98, 99, 97, 98, 99]"
    by code_simp
  moreover have "decodeBlock [63, 97, 98, 99, 3, 0, 9, 80, 98, 99, 97, 98, 99] 0 36
     = Some (map of_nat (str ''abcabcabcabcabcabcabcabcabcabcabcabc''))"
    by code_simp
  ultimately show ?thesis ..
qed


end
